theory Spec2Isabelle
  imports Complex_Main "HOL-Library.Word" "HOL-Library.Multiset"
begin

unbundle bit_operations_syntax

section \<open>Values that cross the realtime channel\<close>

text \<open>
  The result of \<open>JSON.parse\<close> on an inbound message. A parsed object is the list of its
  own properties; the first pair for a key is that key's value.
\<close>

datatype json =
    JNull
  | JBool bool
  | JNum rat
  | JStr string
  | JArr "json list"
  | JObj "(string \<times> json) list"

text \<open>A JavaScript expression either throws or yields a value.\<close>

datatype 'a outcome = Throw | Ok 'a

text \<open>
  \<open>data.type\<close> and \<open>data.symbol\<close>: reading a property of \<open>null\<close> throws a TypeError,
  a missing property is \<open>undefined\<close> (\<open>None\<close>), and numbers, booleans, strings and
  arrays have neither of the two properties the handlers read.
\<close>

fun getProp :: "json \<Rightarrow> string \<Rightarrow> json option outcome" where
  "getProp JNull key = Throw"
| "getProp (JObj kvs) key = Ok (map_of kvs key)"
| "getProp v key = Ok None"

text \<open>
  \<open>data.symbol.toUpperCase()\<close>: only a string has the method; on \<open>undefined\<close>,
  \<open>null\<close> and every other JSON value the call throws a TypeError. The case mapping
  itself is the library's and is a parameter of the model.
\<close>

fun callToUpperCase :: "(string \<Rightarrow> string) \<Rightarrow> json option \<Rightarrow> string outcome" where
  "callToUpperCase up (Some (JStr s)) = Ok (up s)"
| "callToUpperCase up v = Throw"

section \<open>The subscription registry\<close>

text \<open>
  \<open>Map<string, Set<WebSocket>>\<close>: a JavaScript Map and Set keep insertion order, so the
  registry is an association list of symbols and client lists. A connection is the
  identity of its WebSocket object.
\<close>

type_synonym symbol = string
type_synonym conn = nat
type_synonym registry = "(symbol \<times> conn list) list"

definition Map_has :: "('k \<times> 'v) list \<Rightarrow> 'k \<Rightarrow> bool" where
  "Map_has m k = (map_of m k \<noteq> None)"

definition Map_get :: "('k \<times> 'v) list \<Rightarrow> 'k \<Rightarrow> 'v option" where
  "Map_get m k = map_of m k"

fun Map_set :: "('k \<times> 'v) list \<Rightarrow> 'k \<Rightarrow> 'v \<Rightarrow> ('k \<times> 'v) list" where
  "Map_set [] k v = [(k, v)]"
| "Map_set ((k', v') # m) k v =
     (if k' = k then (k, v) # m else (k', v') # Map_set m k v)"

definition Map_delete :: "('k \<times> 'v) list \<Rightarrow> 'k \<Rightarrow> ('k \<times> 'v) list" where
  "Map_delete m k = filter (\<lambda>(k', v). k' \<noteq> k) m"

definition Set_add :: "'a list \<Rightarrow> 'a \<Rightarrow> 'a list" where
  "Set_add s x = (if x \<in> set s then s else s @ [x])"

definition Set_delete :: "'a list \<Rightarrow> 'a \<Rightarrow> 'a list" where
  "Set_delete s x = removeAll x s"

text \<open>
  \<open>activeSubscriptions.get(symbol)?.add(ws)\<close> and \<open>...?.delete(ws)\<close> change the Set
  object that the Map holds for the symbol; where the symbol has no entry the optional
  chaining makes the call a no-op.
\<close>

definition get_add :: "registry \<Rightarrow> symbol \<Rightarrow> conn \<Rightarrow> registry" where
  "get_add reg symbol ws =
     (case Map_get reg symbol of
        None \<Rightarrow> reg
      | Some clients \<Rightarrow> Map_set reg symbol (Set_add clients ws))"

definition get_delete :: "registry \<Rightarrow> symbol \<Rightarrow> conn \<Rightarrow> registry" where
  "get_delete reg symbol ws =
     (case Map_get reg symbol of
        None \<Rightarrow> reg
      | Some clients \<Rightarrow> Map_set reg symbol (Set_delete clients ws))"

text \<open>\<open>activeSubscriptions.get(symbol)?.size === 0\<close>; \<open>undefined === 0\<close> is false.\<close>

definition get_size_is_0 :: "registry \<Rightarrow> symbol \<Rightarrow> bool" where
  "get_size_is_0 reg symbol =
     (case Map_get reg symbol of None \<Rightarrow> False | Some clients \<Rightarrow> length clients = 0)"

subsection \<open>index.ts: the handlers and the periodic update\<close>

text \<open>What a handler does besides changing the registry, in order.\<close>

datatype action =
    ConsoleLog
  | ConsoleError
  | CallSendStockData symbol conn

definition subscribe :: "registry \<Rightarrow> symbol \<Rightarrow> conn \<Rightarrow> registry" where
  "subscribe reg symbol ws =
     (let reg1 = (if \<not> Map_has reg symbol then Map_set reg symbol [] else reg)
      in get_add reg1 symbol ws)"

definition unsubscribe :: "registry \<Rightarrow> symbol \<Rightarrow> conn \<Rightarrow> registry" where
  "unsubscribe reg symbol ws =
     (if Map_has reg symbol then
        (let reg1 = get_delete reg symbol ws
         in if get_size_is_0 reg1 symbol then Map_delete reg1 symbol else reg1)
      else reg)"

text \<open>
  \<open>ws.on('message')\<close> of index.ts. The argument \<open>parsed\<close> is the result of
  \<open>JSON.parse(message.toString())\<close>, \<open>None\<close> when it throws a SyntaxError. Every
  exception inside the \<open>try\<close> block ends in the \<open>catch\<close>, which only logs.
\<close>

definition symbolOf :: "(string \<Rightarrow> string) \<Rightarrow> json \<Rightarrow> string outcome" where
  "symbolOf up data =
     (case getProp data ''symbol'' of
        Throw \<Rightarrow> Throw
      | Ok v \<Rightarrow> callToUpperCase up v)"

definition onMessage ::
  "(string \<Rightarrow> string) \<Rightarrow> conn \<Rightarrow> json option \<Rightarrow> registry \<Rightarrow> registry \<times> action list" where
  "onMessage up ws parsed reg =
     (case parsed of
        None \<Rightarrow> (reg, [ConsoleError])
      | Some data \<Rightarrow>
          (case getProp data ''type'' of
             Throw \<Rightarrow> (reg, [ConsoleLog, ConsoleError])
           | Ok ty \<Rightarrow>
               if ty = Some (JStr ''SUBSCRIBE_STOCK'') then
                 (case symbolOf up data of
                    Throw \<Rightarrow> (reg, [ConsoleLog, ConsoleError])
                  | Ok symbol \<Rightarrow>
                      (subscribe reg symbol ws,
                       [ConsoleLog, ConsoleLog, CallSendStockData symbol ws]))
               else if ty = Some (JStr ''UNSUBSCRIBE_STOCK'') then
                 (case symbolOf up data of
                    Throw \<Rightarrow> (reg, [ConsoleLog, ConsoleError])
                  | Ok symbol \<Rightarrow>
                      (unsubscribe reg symbol ws, [ConsoleLog, ConsoleLog]))
               else (reg, [ConsoleLog])))"

text \<open>
  \<open>ws.on('close')\<close> of index.ts: \<open>activeSubscriptions.forEach\<close> visits the entries
  in insertion order; the callback removes \<open>ws\<close> from the entry's Set and deletes the
  entry from the Map when the Set is empty. Deleting the entry being visited does not
  disturb the visit of the later ones. The first argument of the loop is what is left to
  visit, the last is the Map as changed so far.
\<close>

fun close_forEach :: "conn \<Rightarrow> (symbol \<times> conn list) list \<Rightarrow> registry \<Rightarrow> registry" where
  "close_forEach ws [] reg = reg"
| "close_forEach ws ((symbol, clients) # rest) reg =
     (let reg1 = Map_set reg symbol (Set_delete clients ws);
          reg2 = (if length (Set_delete clients ws) = 0 then Map_delete reg1 symbol else reg1)
      in close_forEach ws rest reg2)"

definition onClose :: "conn \<Rightarrow> registry \<Rightarrow> registry \<times> action list" where
  "onClose ws reg = (close_forEach ws reg reg, [ConsoleLog])"

text \<open>
  The periodic update of index.ts: for every entry and every client of it whose
  \<open>readyState\<close> is \<open>OPEN\<close>, one call \<open>sendStockData(symbol, client)\<close>. The Map is
  not changed.
\<close>

datatype ready_state = CONNECTING | OPEN | CLOSING | CLOSED

definition tick :: "(conn \<Rightarrow> ready_state) \<Rightarrow> registry \<Rightarrow> registry \<times> action list" where
  "tick readyState reg =
     (reg,
      concat (map (\<lambda>(symbol, clients).
                     map (\<lambda>client. CallSendStockData symbol client)
                         (filter (\<lambda>client. readyState client = OPEN) clients))
                  reg))"

text \<open>The events the server processes, and the registry after a sequence of them.\<close>

datatype event =
    Message conn "json option"
  | Close conn
  | Tick "conn \<Rightarrow> ready_state"

fun handle :: "(string \<Rightarrow> string) \<Rightarrow> event \<Rightarrow> registry \<Rightarrow> registry \<times> action list" where
  "handle up (Message ws parsed) reg = onMessage up ws parsed reg"
| "handle up (Close ws) reg = onClose ws reg"
| "handle up (Tick readyState) reg = tick readyState reg"

fun run :: "(string \<Rightarrow> string) \<Rightarrow> event list \<Rightarrow> registry \<Rightarrow> registry" where
  "run up [] reg = reg"
| "run up (e # es) reg = run up es (fst (handle up e reg))"

subsection \<open>fixed-index.ts: the close handler and the periodic update\<close>

text \<open>
  fixed-index.ts keeps the Set \<open>clients\<close> of all connections beside the Map
  \<open>subscriptions\<close>. Its close handler leaves an emptied Set in the Map, and its
  periodic update tests \<open>clients.size > 0\<close> before it visits a Set.
\<close>

record fixed_state =
  clients :: "conn list"
  subscriptions :: registry

fun fixed_close_forEach :: "conn \<Rightarrow> (symbol \<times> conn list) list \<Rightarrow> registry \<Rightarrow> registry" where
  "fixed_close_forEach ws [] reg = reg"
| "fixed_close_forEach ws ((symbol, cls) # rest) reg =
     fixed_close_forEach ws rest (Map_set reg symbol (Set_delete cls ws))"

definition fixed_onClose :: "conn \<Rightarrow> fixed_state \<Rightarrow> fixed_state \<times> action list" where
  "fixed_onClose ws st =
     (\<lparr>clients = Set_delete (clients st) ws,
       subscriptions = fixed_close_forEach ws (subscriptions st) (subscriptions st)\<rparr>,
      [ConsoleLog])"

definition fixed_tick :: "(conn \<Rightarrow> ready_state) \<Rightarrow> fixed_state \<Rightarrow> fixed_state \<times> action list" where
  "fixed_tick readyState st =
     (st,
      concat (map (\<lambda>(symbol, cls).
                     if length cls > 0 then
                       map (\<lambda>client. CallSendStockData symbol client)
                           (filter (\<lambda>client. readyState client = OPEN) cls)
                     else [])
                  (subscriptions st)))"

section \<open>Invariants and notions of the statements\<close>

text \<open>
  A Map has one entry per key and a Set one entry per member: the lists that represent
  them are duplicate-free.
\<close>

definition reg_wf :: "registry \<Rightarrow> bool" where
  "reg_wf reg = (distinct (map fst reg) \<and> list_all (\<lambda>(symbol, cls). distinct cls) reg)"

text \<open>No symbol of the registry has an empty subscriber set.\<close>

definition no_empty_set :: "registry \<Rightarrow> bool" where
  "no_empty_set reg = list_all (\<lambda>(symbol, cls). cls \<noteq> []) reg"

text \<open>The subscribers of a symbol; a symbol without an entry has none.\<close>

definition subscribersOf :: "registry \<Rightarrow> symbol \<Rightarrow> conn list" where
  "subscribersOf reg symbol = (case Map_get reg symbol of None \<Rightarrow> [] | Some cls \<Rightarrow> cls)"

text \<open>
  What the close handler of index.ts leaves of a registry: every Set without \<open>ws\<close>,
  and no entry whose Set became empty.
\<close>

definition purge :: "conn \<Rightarrow> registry \<Rightarrow> registry" where
  "purge ws reg =
     filter (\<lambda>(symbol, cls). cls \<noteq> []) (map (\<lambda>(symbol, cls). (symbol, removeAll ws cls)) reg)"

text \<open>
  A well-formed request: the message parses, its \<open>type\<close> is one of the two request
  kinds and its \<open>symbol\<close> is a string.
\<close>

definition well_formed_request :: "json option \<Rightarrow> bool" where
  "well_formed_request parsed =
     (case parsed of
        None \<Rightarrow> False
      | Some data \<Rightarrow>
          (getProp data ''type'' = Ok (Some (JStr ''SUBSCRIBE_STOCK''))
           \<or> getProp data ''type'' = Ok (Some (JStr ''UNSUBSCRIBE_STOCK'')))
          \<and> (case getProp data ''symbol'' of
                Ok (Some (JStr s)) \<Rightarrow> True
              | _ \<Rightarrow> False))"

section \<open>Numbers\<close>

text \<open>
  A JavaScript number is an IEEE 754 binary64 value. A finite one is a real number, and
  every arithmetic operation yields the double nearest to the exact result, a tie going
  to the even significand. \<open>binary64\<close> is that rounding for the normal range: the model
  has no overflow to \<open>Infinity\<close>, no subnormal numbers and no negative zero. Those
  concern magnitudes of \<open>2 ^ 1024\<close> and more and magnitudes below \<open>1 / 2 ^ 1022\<close>,
  which the generator reaches from no sine that is zero or has a magnitude between
  \<open>1 / 2 ^ 1000\<close> and 1.
\<close>

definition round_half_even :: "real \<Rightarrow> int" where
  "round_half_even x =
     (let n = \<lfloor>x\<rfloor>
      in if x - of_int n < 1 / 2 then n
         else if 1 / 2 < x - of_int n then n + 1
         else if even n then n else n + 1)"

definition binary64 :: "real \<Rightarrow> real" where
  "binary64 x =
     (if x = 0 then 0
      else (let ulp = 2 powr (of_int \<lfloor>log 2 \<bar>x\<bar>\<rfloor> - 52)
            in of_int (round_half_even (x / ulp)) * ulp))"

text \<open>
  The values a quote cannot take as a result of the generator, but can as a result of
  \<open>parseFloat\<close>, are constructors of their own.
\<close>

datatype number = Number real | NaN | PosInfinity | NegInfinity

section \<open>The synthetic quote generator\<close>

text \<open>
  The hash of the symbol: \<open>a << 5\<close> and \<open>a & a\<close> work on 32-bit integers, so every
  step of the \<open>reduce\<close> ends in a signed 32-bit value. \<open>b.charCodeAt(0)\<close> is the code
  unit of the character.
\<close>

definition hash_step :: "32 word \<Rightarrow> char \<Rightarrow> 32 word" where
  "hash_step a b = (let a = (push_bit 5 a - a) + of_nat (of_char b) in a AND a)"

definition symbol_hash :: "string \<Rightarrow> int" where
  "symbol_hash symbol = sint (foldl hash_step 0 symbol)"

text \<open>The remainder operator \<open>%\<close> on integers: the result has the sign of the dividend.\<close>

definition js_rem :: "int \<Rightarrow> int \<Rightarrow> int" where
  "js_rem a b = sgn a * (\<bar>a\<bar> mod \<bar>b\<bar>)"

definition basePrice :: "string \<Rightarrow> int" where
  "basePrice symbol = 50 + \<bar>js_rem (symbol_hash symbol) 950\<bar>"

text \<open>\<open>Math.floor(Date.now() / (5 * 60 * 1000))\<close>, with \<open>now\<close> the milliseconds of \<open>Date.now()\<close>.\<close>

definition timeSegment :: "int \<Rightarrow> int" where
  "timeSegment now = \<lfloor>binary64 (of_int now / (5 * 60 * 1000))\<rfloor>"

text \<open>
  \<open>Math.sin(timeSegment) * 0.02\<close>. The result of \<open>Math.sin\<close> is left to the
  implementation by the language, so the function is a parameter of the model; the
  literal \<open>0.02\<close> is the double nearest to it.
\<close>

definition fluctuation :: "(int \<Rightarrow> real) \<Rightarrow> int \<Rightarrow> real" where
  "fluctuation Math_sin now = binary64 (Math_sin (timeSegment now) * binary64 (2 / 100))"

text \<open>
  The three values \<open>sendMockStockData\<close> derives (the realtime path):
  price, change and changePercent.
\<close>

definition mockStockData :: "(int \<Rightarrow> real) \<Rightarrow> string \<Rightarrow> int \<Rightarrow> real \<times> real \<times> real" where
  "mockStockData Math_sin symbol now =
     (let price = binary64 (of_int (basePrice symbol) * binary64 (1 + fluctuation Math_sin now));
          change = binary64 (of_int (basePrice symbol) * fluctuation Math_sin now);
          changePercent = binary64 (fluctuation Math_sin now * 100)
      in (price, change, changePercent))"

text \<open>
  \<open>x.toFixed(2)\<close>: the sign, and the integer \<open>n\<close> for which \<open>n / 100\<close> is nearest to
  \<open>\<bar>x\<bar>\<close>, the larger one of two. The string is the sign, the digits of \<open>n div 100\<close>,
  a point and the two digits of \<open>n mod 100\<close>.
\<close>

datatype fixed2 = Fixed2 (negative: bool) (hundredths: nat)

definition toFixed2 :: "real \<Rightarrow> fixed2" where
  "toFixed2 x =
     (if x < 0 then Fixed2 True (nat \<lfloor>- x * 100 + 1 / 2\<rfloor>)
      else Fixed2 False (nat \<lfloor>x * 100 + 1 / 2\<rfloor>))"

text \<open>
  The three values \<open>sendMockApiResponse\<close> derives (the HTTP path), and the body it
  sends.
\<close>

record global_quote =
  symbol01 :: string
  price05 :: fixed2
  change09 :: fixed2
  change_percent10 :: fixed2

definition mockApiData :: "(int \<Rightarrow> real) \<Rightarrow> string \<Rightarrow> int \<Rightarrow> real \<times> real \<times> real" where
  "mockApiData Math_sin symbol now =
     (let price = binary64 (of_int (basePrice symbol) * binary64 (1 + fluctuation Math_sin now));
          change = binary64 (price - of_int (basePrice symbol));
          changePercent = binary64 (fluctuation Math_sin now * 100)
      in (price, change, changePercent))"

definition sendMockApiResponse :: "(int \<Rightarrow> real) \<Rightarrow> int \<Rightarrow> string \<Rightarrow> global_quote" where
  "sendMockApiResponse Math_sin now symbol =
     (case mockApiData Math_sin symbol now of
        (price, change, changePercent) \<Rightarrow>
          \<lparr>symbol01 = symbol,
           price05 = toFixed2 price,
           change09 = toFixed2 change,
           change_percent10 = toFixed2 changePercent\<rparr>)"

text \<open>The correctly rounded sine: one function that \<open>Math.sin\<close> may be.\<close>

definition sin64 :: "int \<Rightarrow> real" where
  "sin64 t = binary64 (sin (of_int t))"

section \<open>The watchlist and history store\<close>

text \<open>
  The durable backend is outside the program. A call \<open>pool.execute\<close> is given the
  backend's reply as an argument: \<open>None\<close> when the promise rejects, \<open>Some rows\<close> when
  it resolves. The statements the backend has executed are recorded in order.
\<close>

datatype statement =
    CreateTable string
  | SelectWatchlist nat
  | InsertWatchlist nat string
  | DeleteWatchlist nat string
  | InsertHistoricalData string number number number
  | SelectHistoricalData string "int option"

record hist_row =
  row_price :: number
  row_change_amount :: number
  row_change_percent :: number
  row_timestamp :: int

record store =
  usingFallback :: bool
  pool :: bool
  watchlists :: "(nat \<times> string list) list"
  historicalData :: "(string \<times> hist_row list) list"
  executed :: "statement list"

text \<open>
  The module's initialisation: \<open>usingFallback\<close> starts as the configuration flag
  \<open>useInMemory\<close>; otherwise the pool is created, and the flag is set if that throws.
  The field \<open>pool\<close> says that the variable \<open>pool\<close> is not \<open>null\<close>.
\<close>

definition initStore :: "bool \<Rightarrow> bool \<Rightarrow> store" where
  "initStore useInMemory createPoolThrows =
     \<lparr>usingFallback = (useInMemory \<or> createPoolThrows),
      pool = (\<not> useInMemory \<and> \<not> createPoolThrows),
      watchlists = [],
      historicalData = [],
      executed = []\<rparr>"

text \<open>\<open>if (!pool) throw new Error(...)\<close> followed by \<open>await pool.execute(...)\<close>.\<close>

definition pool_execute :: "'rows option \<Rightarrow> statement \<Rightarrow> store \<Rightarrow> ('rows \<times> store) outcome" where
  "pool_execute reply stmt st =
     (if \<not> pool st then Throw
      else case reply of
             None \<Rightarrow> Throw
           | Some rows \<Rightarrow> Ok (rows, st\<lparr>executed := executed st @ [stmt]\<rparr>))"

definition initDatabase ::
  "'rows option \<Rightarrow> 'rows option \<Rightarrow> 'rows option \<Rightarrow> store \<Rightarrow> store" where
  "initDatabase r1 r2 r3 st =
     (if usingFallback st then st
      else case pool_execute r1 (CreateTable ''users'') st of
             Throw \<Rightarrow> st\<lparr>usingFallback := True\<rparr>
           | Ok (rows1, st1) \<Rightarrow>
               (case pool_execute r2 (CreateTable ''watchlist'') st1 of
                  Throw \<Rightarrow> st1\<lparr>usingFallback := True\<rparr>
                | Ok (rows2, st2) \<Rightarrow>
                    (case pool_execute r3 (CreateTable ''historical_data'') st2 of
                       Throw \<Rightarrow> st2\<lparr>usingFallback := True\<rparr>
                     | Ok (rows3, st3) \<Rightarrow> st3)))"

text \<open>What the store's functions resolve to.\<close>

record hist_item =
  item_id :: nat
  item_symbol :: string
  item_price :: number
  item_change_amount :: number
  item_change_percent :: number
  item_timestamp :: int

datatype 'rows store_result =
    Undefined
  | Success
  | Rows 'rows
  | Symbols "string list"
  | Items "hist_item list"

definition memory_getUserWatchlist :: "nat \<Rightarrow> store \<Rightarrow> 'rows store_result" where
  "memory_getUserWatchlist userId st =
     Symbols (case Map_get (watchlists st) userId of None \<Rightarrow> [] | Some userWatchlist \<Rightarrow> userWatchlist)"

definition getUserWatchlist :: "'rows option \<Rightarrow> nat \<Rightarrow> store \<Rightarrow> 'rows store_result \<times> store" where
  "getUserWatchlist reply userId st =
     (if usingFallback st then (memory_getUserWatchlist userId st, st)
      else case pool_execute reply (SelectWatchlist userId) st of
             Ok (rows, st1) \<Rightarrow> (Rows rows, st1)
           | Throw \<Rightarrow>
               (let st1 = st\<lparr>usingFallback := True\<rparr>
                in (memory_getUserWatchlist userId st1, st1)))"

definition memory_addToWatchlist :: "nat \<Rightarrow> string \<Rightarrow> store \<Rightarrow> store" where
  "memory_addToWatchlist userId symbol st =
     (let w1 = (if \<not> Map_has (watchlists st) userId
                then Map_set (watchlists st) userId [] else watchlists st);
          w2 = (case Map_get w1 userId of
                  None \<Rightarrow> w1
                | Some userWatchlist \<Rightarrow> Map_set w1 userId (Set_add userWatchlist symbol))
      in st\<lparr>watchlists := w2\<rparr>)"

definition addToWatchlist ::
  "'rows option \<Rightarrow> nat \<Rightarrow> string \<Rightarrow> store \<Rightarrow> 'rows store_result \<times> store" where
  "addToWatchlist reply userId symbol st =
     (if usingFallback st then (Success, memory_addToWatchlist userId symbol st)
      else case pool_execute reply (InsertWatchlist userId symbol) st of
             Ok (rows, st1) \<Rightarrow> (Success, st1)
           | Throw \<Rightarrow> (Success, memory_addToWatchlist userId symbol (st\<lparr>usingFallback := True\<rparr>)))"

definition memory_removeFromWatchlist :: "nat \<Rightarrow> string \<Rightarrow> store \<Rightarrow> store" where
  "memory_removeFromWatchlist userId symbol st =
     (case Map_get (watchlists st) userId of
        None \<Rightarrow> st
      | Some userWatchlist \<Rightarrow>
          st\<lparr>watchlists := Map_set (watchlists st) userId (Set_delete userWatchlist symbol)\<rparr>)"

definition removeFromWatchlist ::
  "'rows option \<Rightarrow> nat \<Rightarrow> string \<Rightarrow> store \<Rightarrow> 'rows store_result \<times> store" where
  "removeFromWatchlist reply userId symbol st =
     (if usingFallback st then (Success, memory_removeFromWatchlist userId symbol st)
      else case pool_execute reply (DeleteWatchlist userId symbol) st of
             Ok (rows, st1) \<Rightarrow> (Success, st1)
           | Throw \<Rightarrow>
               (Success, memory_removeFromWatchlist userId symbol (st\<lparr>usingFallback := True\<rparr>)))"

text \<open>\<open>now\<close> is the time of \<open>new Date()\<close>.\<close>

definition memory_storeHistoricalData ::
  "int \<Rightarrow> string \<Rightarrow> number \<Rightarrow> number \<Rightarrow> number \<Rightarrow> store \<Rightarrow> store" where
  "memory_storeHistoricalData now symbol price changeAmount changePercent st =
     (let h1 = (if \<not> Map_has (historicalData st) symbol
                then Map_set (historicalData st) symbol [] else historicalData st);
          h2 = (case Map_get h1 symbol of
                  None \<Rightarrow> h1
                | Some rows \<Rightarrow>
                    Map_set h1 symbol
                      (rows @ [\<lparr>row_price = price, row_change_amount = changeAmount,
                                row_change_percent = changePercent, row_timestamp = now\<rparr>]))
      in st\<lparr>historicalData := h2\<rparr>)"

definition storeHistoricalData ::
  "'rows option \<Rightarrow> int \<Rightarrow> string \<Rightarrow> number \<Rightarrow> number \<Rightarrow> number \<Rightarrow> store
     \<Rightarrow> 'rows store_result \<times> store" where
  "storeHistoricalData reply now symbol price changeAmount changePercent st =
     (if usingFallback st
      then (Success, memory_storeHistoricalData now symbol price changeAmount changePercent st)
      else case pool_execute reply (InsertHistoricalData symbol price changeAmount changePercent) st of
             Ok (rows, st1) \<Rightarrow> (Success, st1)
           | Throw \<Rightarrow>
               (Success,
                memory_storeHistoricalData now symbol price changeAmount changePercent
                  (st\<lparr>usingFallback := True\<rparr>)))"

text \<open>
  \<open>data.slice(-limit)\<close>: a negative start counts from the end, a start of zero (also
  from a \<open>limit\<close> that is \<open>NaN\<close>, here \<open>None\<close>) keeps the whole array.
\<close>

definition slice_from :: "'a list \<Rightarrow> int \<Rightarrow> 'a list" where
  "slice_from xs start =
     (if start < 0 then drop (nat (max 0 (int (length xs) + start))) xs
      else drop (nat start) xs)"

definition memory_getHistoricalData :: "string \<Rightarrow> int option \<Rightarrow> store \<Rightarrow> 'rows store_result" where
  "memory_getHistoricalData symbol limit st =
     (let data = (case Map_get (historicalData st) symbol of None \<Rightarrow> [] | Some rows \<Rightarrow> rows);
          kept = slice_from data (case limit of None \<Rightarrow> 0 | Some n \<Rightarrow> - n)
      in Items (map (\<lambda>(item, index).
                       \<lparr>item_id = index + 1, item_symbol = symbol, item_price = row_price item,
                        item_change_amount = row_change_amount item,
                        item_change_percent = row_change_percent item,
                        item_timestamp = row_timestamp item\<rparr>)
                    (zip kept [0 ..< length kept])))"

definition getHistoricalData ::
  "'rows option \<Rightarrow> string \<Rightarrow> int option \<Rightarrow> store \<Rightarrow> 'rows store_result \<times> store" where
  "getHistoricalData reply symbol limit st =
     (if usingFallback st then (memory_getHistoricalData symbol limit st, st)
      else case pool_execute reply (SelectHistoricalData symbol limit) st of
             Ok (rows, st1) \<Rightarrow> (Rows rows, st1)
           | Throw \<Rightarrow>
               (let st1 = st\<lparr>usingFallback := True\<rparr>
                in (memory_getHistoricalData symbol limit st1, st1)))"

text \<open>A call of one of the store's functions, with the replies of the durable backend.\<close>

datatype 'rows store_call =
    InitDatabase "'rows option" "'rows option" "'rows option"
  | GetUserWatchlist "'rows option" nat
  | AddToWatchlist "'rows option" nat string
  | RemoveFromWatchlist "'rows option" nat string
  | StoreHistoricalData "'rows option" int string number number number
  | GetHistoricalData "'rows option" string "int option"

fun store_step :: "'rows store_call \<Rightarrow> store \<Rightarrow> 'rows store_result \<times> store" where
  "store_step (InitDatabase r1 r2 r3) st = (Undefined, initDatabase r1 r2 r3 st)"
| "store_step (GetUserWatchlist reply userId) st = getUserWatchlist reply userId st"
| "store_step (AddToWatchlist reply userId symbol) st = addToWatchlist reply userId symbol st"
| "store_step (RemoveFromWatchlist reply userId symbol) st =
     removeFromWatchlist reply userId symbol st"
| "store_step (StoreHistoricalData reply now symbol price changeAmount changePercent) st =
     storeHistoricalData reply now symbol price changeAmount changePercent st"
| "store_step (GetHistoricalData reply symbol limit) st = getHistoricalData reply symbol limit st"

fun store_run :: "'rows store_call list \<Rightarrow> store \<Rightarrow> 'rows store_result list \<times> store" where
  "store_run [] st = ([], st)"
| "store_run (c # cs) st =
     (case store_step c st of
        (r, st1) \<Rightarrow> (case store_run cs st1 of (rs, st2) \<Rightarrow> (r # rs, st2)))"

text \<open>
  An operational failure of the durable backend in a call: the store is on the durable
  backend and the pool is missing or one of the statements the call executes is rejected.
\<close>

fun durable_fails :: "'rows store_call \<Rightarrow> store \<Rightarrow> bool" where
  "durable_fails (InitDatabase r1 r2 r3) st =
     (\<not> usingFallback st \<and> (\<not> pool st \<or> r1 = None \<or> r2 = None \<or> r3 = None))"
| "durable_fails (GetUserWatchlist reply userId) st =
     (\<not> usingFallback st \<and> (\<not> pool st \<or> reply = None))"
| "durable_fails (AddToWatchlist reply userId symbol) st =
     (\<not> usingFallback st \<and> (\<not> pool st \<or> reply = None))"
| "durable_fails (RemoveFromWatchlist reply userId symbol) st =
     (\<not> usingFallback st \<and> (\<not> pool st \<or> reply = None))"
| "durable_fails (StoreHistoricalData reply now symbol price changeAmount changePercent) st =
     (\<not> usingFallback st \<and> (\<not> pool st \<or> reply = None))"
| "durable_fails (GetHistoricalData reply symbol limit) st =
     (\<not> usingFallback st \<and> (\<not> pool st \<or> reply = None))"

text \<open>A result that reports success: the caller gets a value, and never the rows of the backend.\<close>

fun from_memory :: "'rows store_call \<Rightarrow> 'rows store_result \<Rightarrow> bool" where
  "from_memory (InitDatabase r1 r2 r3) r = (r = Undefined)"
| "from_memory (GetUserWatchlist reply userId) r = (case r of Symbols xs \<Rightarrow> True | _ \<Rightarrow> False)"
| "from_memory (AddToWatchlist reply userId symbol) r = (r = Success)"
| "from_memory (RemoveFromWatchlist reply userId symbol) r = (r = Success)"
| "from_memory (StoreHistoricalData reply now symbol price changeAmount changePercent) r =
     (r = Success)"
| "from_memory (GetHistoricalData reply symbol limit) r = (case r of Items xs \<Rightarrow> True | _ \<Rightarrow> False)"



section \<open>Resolving and pushing a quote\<close>

text \<open>The \<open>STOCK_UPDATE\<close> message and the call \<open>ws.send\<close> that carries it.\<close>

record stock_update =
  upd_symbol :: "json option"
  upd_price :: number
  upd_change :: number
  upd_changePercent :: number
  upd_timestamp :: int

datatype push = WsSend conn stock_update

text \<open>
  \<open>sendMockStockData\<close>: the generated values go to the History Store and to the
  connection. The promise of \<open>storeHistoricalData\<close> is not awaited; the model takes
  its effect on the store at once.
\<close>

definition sendMockStockData ::
  "(int \<Rightarrow> real) \<Rightarrow> 'rows option \<Rightarrow> int \<Rightarrow> string \<Rightarrow> conn \<Rightarrow> store
     \<Rightarrow> push list \<times> store" where
  "sendMockStockData Math_sin reply now symbol ws st =
     (case mockStockData Math_sin symbol now of
        (price, change, changePercent) \<Rightarrow>
          (let st1 = snd (storeHistoricalData reply now symbol
                            (Number price) (Number change) (Number changePercent) st)
           in ([WsSend ws \<lparr>upd_symbol = Some (JStr symbol), upd_price = Number price,
                            upd_change = Number change, upd_changePercent = Number changePercent,
                            upd_timestamp = now\<rparr>],
               st1)))"

text \<open>Whether a value counts as true in a condition; \<open>None\<close> is \<open>undefined\<close>.\<close>

fun truthy :: "json option \<Rightarrow> bool" where
  "truthy None = False"
| "truthy (Some JNull) = False"
| "truthy (Some (JBool b)) = b"
| "truthy (Some (JNum x)) = (x \<noteq> 0)"
| "truthy (Some (JStr s)) = (s \<noteq> [])"
| "truthy (Some (JArr xs)) = True"
| "truthy (Some (JObj kvs)) = True"

text \<open>
  \<open>response.data['Note'] || response.data['Information'] || !response.data['Global Quote']\<close>:
  the provider signals a rate limit, sends a notice, or sends no quote.
\<close>

definition noQuote :: "json \<Rightarrow> bool outcome" where
  "noQuote data =
     (case getProp data ''Note'' of
        Throw \<Rightarrow> Throw
      | Ok note \<Rightarrow>
          if truthy note then Ok True
          else (case getProp data ''Information'' of
                  Throw \<Rightarrow> Throw
                | Ok information \<Rightarrow>
                    if truthy information then Ok True
                    else (case getProp data ''Global Quote'' of
                            Throw \<Rightarrow> Throw
                          | Ok quote \<Rightarrow> Ok (\<not> truthy quote))))"

text \<open>
  The fields of a provider quote, as \<open>sendStockData\<close> reads them. \<open>parseFloat\<close> is the
  library's and a parameter of the model; \<open>.replace('%', '')\<close> exists on a string only
  and removes the first percent sign.
\<close>

definition parseQuote ::
  "(json option \<Rightarrow> number) \<Rightarrow> json \<Rightarrow> (json option \<times> number \<times> number \<times> number) outcome" where
  "parseQuote parseFloat quote =
     (case (getProp quote ''05. price'', getProp quote ''09. change'',
            getProp quote ''10. change percent'', getProp quote ''01. symbol'') of
        (Ok p, Ok c, Ok (Some (JStr cp)), Ok s) \<Rightarrow>
          Ok (s, parseFloat p, parseFloat c, parseFloat (Some (JStr (remove1 CHR ''%'' cp))))
      | _ \<Rightarrow> Throw)"

text \<open>
  \<open>sendStockData\<close>: \<open>apiKey\<close> says that the provider key is configured, \<open>response\<close>
  is \<open>None\<close> when \<open>axios.get\<close> rejects and the \<open>response.data\<close> otherwise. Every
  exception of the \<open>try\<close> block ends in \<open>sendMockStockData\<close>.
\<close>

definition sendStockData ::
  "(json option \<Rightarrow> number) \<Rightarrow> (int \<Rightarrow> real) \<Rightarrow> bool \<Rightarrow> json option \<Rightarrow> 'rows option
     \<Rightarrow> int \<Rightarrow> string \<Rightarrow> conn \<Rightarrow> store \<Rightarrow> push list \<times> store" where
  "sendStockData parseFloat Math_sin apiKey response reply now symbol ws st =
     (if \<not> apiKey then sendMockStockData Math_sin reply now symbol ws st
      else case response of
             None \<Rightarrow> sendMockStockData Math_sin reply now symbol ws st
           | Some data \<Rightarrow>
               (case noQuote data of
                  Throw \<Rightarrow> sendMockStockData Math_sin reply now symbol ws st
                | Ok True \<Rightarrow> sendMockStockData Math_sin reply now symbol ws st
                | Ok False \<Rightarrow>
                    (case getProp data ''Global Quote'' of
                       Ok (Some quote) \<Rightarrow>
                         (case parseQuote parseFloat quote of
                            Throw \<Rightarrow> sendMockStockData Math_sin reply now symbol ws st
                          | Ok (s, price, change, changePercent) \<Rightarrow>
                              (let st1 = snd (storeHistoricalData reply now symbol
                                                price change changePercent st)
                               in ([WsSend ws \<lparr>upd_symbol = s, upd_price = price,
                                                upd_change = change,
                                                upd_changePercent = changePercent,
                                                upd_timestamp = now\<rparr>],
                                   st1)))
                     | _ \<Rightarrow> sendMockStockData Math_sin reply now symbol ws st)))"

text \<open>
  \<open>GET /api/stocks/:symbol\<close>: the mock body or the provider's own. The handler has no
  access to the store; the store is passed through to say so.
\<close>

datatype http_body = MockBody global_quote | ProviderBody json

definition api_stocks ::
  "(int \<Rightarrow> real) \<Rightarrow> bool \<Rightarrow> json option \<Rightarrow> int \<Rightarrow> string \<Rightarrow> store
     \<Rightarrow> http_body \<times> store" where
  "api_stocks Math_sin apiKey response now symbol st =
     (if \<not> apiKey then (MockBody (sendMockApiResponse Math_sin now symbol), st)
      else case response of
             None \<Rightarrow> (MockBody (sendMockApiResponse Math_sin now symbol), st)
           | Some data \<Rightarrow>
               (case noQuote data of
                  Throw \<Rightarrow> (MockBody (sendMockApiResponse Math_sin now symbol), st)
                | Ok True \<Rightarrow> (MockBody (sendMockApiResponse Math_sin now symbol), st)
                | Ok False \<Rightarrow> (ProviderBody data, st)))"

text \<open>
  The samples of a symbol in the History Store, oldest first: the rows the durable
  backend has inserted, then the rows held in memory.
\<close>

fun inserted :: "string \<Rightarrow> statement list \<Rightarrow> (number \<times> number \<times> number) list" where
  "inserted symbol [] = []"
| "inserted symbol (InsertHistoricalData s price changeAmount changePercent # stmts) =
     (if s = symbol then (price, changeAmount, changePercent) # inserted symbol stmts
      else inserted symbol stmts)"
| "inserted symbol (stmt # stmts) = inserted symbol stmts"

definition samples :: "store \<Rightarrow> string \<Rightarrow> (number \<times> number \<times> number) list" where
  "samples st symbol =
     inserted symbol (executed st)
     @ map (\<lambda>row. (row_price row, row_change_amount row, row_change_percent row))
         (case Map_get (historicalData st) symbol of None \<Rightarrow> [] | Some rows \<Rightarrow> rows)"

text \<open>The connections for which \<open>sendStockData\<close> is called with a symbol, in order.\<close>

fun calls_for :: "symbol \<Rightarrow> action list \<Rightarrow> conn list" where
  "calls_for symbol [] = []"
| "calls_for symbol (CallSendStockData s client # as) =
     (if s = symbol then client # calls_for symbol as else calls_for symbol as)"
| "calls_for symbol (a # as) = calls_for symbol as"

text \<open>The connection and the three values of a pushed quote.\<close>

fun target :: "push \<Rightarrow> conn" where
  "target (WsSend ws u) = ws"

fun quote_of :: "push \<Rightarrow> number \<times> number \<times> number" where
  "quote_of (WsSend ws u) = (upd_price u, upd_change u, upd_changePercent u)"

text \<open>Two states of the connections: all open, and all open but connection 2.\<close>

definition all_OPEN :: "conn \<Rightarrow> ready_state" where
  "all_OPEN client = OPEN"

definition closed_2 :: "conn \<Rightarrow> ready_state" where
  "closed_2 client = (if client = 2 then CLOSED else OPEN)"

section \<open>Properties of the Map and Set operations\<close>


lemma map_of_Map_set: "map_of (Map_set m k v) = (map_of m)(k \<mapsto> v)"
  by (induction m) (auto simp: fun_eq_iff)

lemma keys_Map_set:
  "map fst (Map_set m k v) = (if k \<in> set (map fst m) then map fst m else map fst m @ [k])"
  by (induction m) (auto simp: rev_image_eqI)

lemma set_Map_set: "set (Map_set m k v) \<subseteq> insert (k, v) (set m)"
  by (induction m) (auto split: if_splits)

lemma Map_set_same: "map_of m k = Some v \<Longrightarrow> Map_set m k v = m"
  by (induction m) (auto split: if_splits)

lemma Map_set_twice: "Map_set (Map_set m k v) k w = Map_set m k w"
  by (induction m) auto

lemma Map_set_append:
  "k \<notin> set (map fst pre) \<Longrightarrow> Map_set (pre @ (k, v) # rest) k w = pre @ (k, w) # rest"
  by (induction pre) auto

lemma Map_delete_absent: "k \<notin> set (map fst m) \<Longrightarrow> Map_delete m k = m"
  by (induction m) (auto simp: Map_delete_def)

lemma Map_delete_append:
  "Map_delete (pre @ (k, v) # rest) k = Map_delete pre k @ Map_delete rest k"
  by (simp add: Map_delete_def)

lemma close_forEach_split:
  "distinct (map fst (pre @ todo)) \<Longrightarrow>
   close_forEach ws todo (pre @ todo) = pre @ purge ws todo"
proof (induction todo arbitrary: pre)
  case Nil
  then show ?case by (simp add: purge_def)
next
  case (Cons e todo)
  obtain k cls where e: "e = (k, cls)" by (cases e)
  from Cons.prems e have k1: "k \<notin> set (map fst pre)" and k2: "k \<notin> set (map fst todo)"
    by auto
  show ?case
  proof (cases "removeAll ws cls = []")
    case True
    have "distinct (map fst (pre @ todo))" using Cons.prems e by auto
    from Cons.IH [OF this] show ?thesis
      using True k1 k2 e
      by (simp add: Map_set_append Map_delete_append Map_delete_absent Set_delete_def purge_def)
  next
    case False
    have "distinct (map fst ((pre @ [(k, removeAll ws cls)]) @ todo))"
      using Cons.prems e by auto
    from Cons.IH [OF this] show ?thesis
      using False k1 e
      by (simp add: Map_set_append Set_delete_def purge_def)
  qed
qed

lemma onClose_purge: "distinct (map fst reg) \<Longrightarrow> fst (onClose ws reg) = purge ws reg"
  using close_forEach_split [of "[]" reg ws] by (simp add: onClose_def)

lemma map_of_Map_delete: "map_of (Map_delete m k) = (map_of m)(k := None)"
  by (induction m) (auto simp: Map_delete_def fun_eq_iff)

lemma keys_Map_delete: "map fst (Map_delete m k) = removeAll k (map fst m)"
  by (induction m) (auto simp: Map_delete_def)

lemma set_Map_delete: "set (Map_delete m k) \<subseteq> set m"
  by (auto simp: Map_delete_def)

lemma distinct_Map_set: "distinct (map fst m) \<Longrightarrow> distinct (map fst (Map_set m k v))"
  by (simp add: keys_Map_set)

lemma distinct_Map_delete: "distinct (map fst m) \<Longrightarrow> distinct (map fst (Map_delete m k))"
  by (simp add: keys_Map_delete distinct_removeAll)

lemma list_all_Map_set: "list_all P m \<Longrightarrow> P (k, v) \<Longrightarrow> list_all P (Map_set m k v)"
  using set_Map_set [of m k v] by (auto simp: list_all_iff)

lemma list_all_Map_delete: "list_all P m \<Longrightarrow> list_all P (Map_delete m k)"
  by (auto simp: list_all_iff Map_delete_def)

lemma list_all_map_of: "list_all P m \<Longrightarrow> map_of m k = Some v \<Longrightarrow> P (k, v)"
  by (auto simp: list_all_iff dest: map_of_SomeD)

lemma subscribersOf_subscribe:
  "subscribersOf (subscribe reg s ws) s' =
     (if s' = s then Set_add (subscribersOf reg s) ws else subscribersOf reg s')"
  by (auto simp: subscribersOf_def subscribe_def get_add_def Map_get_def Map_has_def
        map_of_Map_set Let_def split: option.splits)

lemma subscribersOf_unsubscribe:
  "subscribersOf (unsubscribe reg s ws) s' =
     (if s' = s then Set_delete (subscribersOf reg s) ws else subscribersOf reg s')"
  by (auto simp: subscribersOf_def unsubscribe_def get_delete_def get_size_is_0_def Map_get_def
        Map_has_def map_of_Map_set map_of_Map_delete Let_def Set_delete_def split: option.splits)

lemma subscribe_twice: "subscribe (subscribe reg s ws) s ws = subscribe reg s ws"
  by (auto simp: subscribe_def get_add_def Map_get_def Map_has_def map_of_Map_set Let_def
        Map_set_twice Set_add_def split: option.splits)

lemma unsubscribe_non_member:
  assumes "no_empty_set reg" and "ws \<notin> set (subscribersOf reg s)"
  shows "unsubscribe reg s ws = reg"
proof (cases "map_of reg s")
  case None
  then show ?thesis by (simp add: unsubscribe_def Map_has_def)
next
  case (Some cls)
  with assms(1) have ne: "cls \<noteq> []"
    using list_all_map_of [of "\<lambda>(symbol, cls). cls \<noteq> []" reg s cls] by (simp add: no_empty_set_def)
  from Some assms(2) have "removeAll ws cls = cls"
    by (simp add: subscribersOf_def Map_get_def)
  with Some ne show ?thesis
    by (simp add: unsubscribe_def Map_has_def get_delete_def Map_get_def Set_delete_def
          Map_set_same get_size_is_0_def)
qed

lemma reg_wf_subscribe: "reg_wf reg \<Longrightarrow> reg_wf (subscribe reg s ws)"
  by (auto simp: reg_wf_def subscribe_def get_add_def Map_get_def Map_has_def Let_def
        map_of_Map_set Set_add_def
        intro!: distinct_Map_set list_all_Map_set dest: list_all_map_of split: option.splits)

lemma no_empty_subscribe: "no_empty_set reg \<Longrightarrow> no_empty_set (subscribe reg s ws)"
  by (auto simp: no_empty_set_def subscribe_def get_add_def Map_get_def Map_has_def Let_def
        map_of_Map_set Set_add_def Map_set_twice
        intro!: list_all_Map_set split: option.splits)

lemma set_Map_delete_Map_set: "set (Map_delete (Map_set m k v) k) \<subseteq> set m"
  using set_Map_set [of m k v] by (auto simp: Map_delete_def)

lemma list_all_Map_delete_Map_set: "list_all P m \<Longrightarrow> list_all P (Map_delete (Map_set m k v) k)"
  using set_Map_delete_Map_set [of m k v] by (auto simp: list_all_iff)

lemma reg_wf_unsubscribe: "reg_wf reg \<Longrightarrow> reg_wf (unsubscribe reg s ws)"
  by (auto simp: reg_wf_def unsubscribe_def get_delete_def Map_get_def Map_has_def Let_def
        Set_delete_def distinct_removeAll
        intro!: distinct_Map_set distinct_Map_delete list_all_Map_set list_all_Map_delete
        dest: list_all_map_of split: option.splits)

lemma no_empty_unsubscribe: "no_empty_set reg \<Longrightarrow> no_empty_set (unsubscribe reg s ws)"
  by (auto simp: no_empty_set_def unsubscribe_def get_delete_def Map_get_def Map_has_def Let_def
        get_size_is_0_def map_of_Map_set
        intro!: list_all_Map_set list_all_Map_delete_Map_set split: option.splits)

lemma keys_purge: "fst ` set (purge ws reg) \<subseteq> fst ` set reg"
  by (force simp: purge_def)

lemma purge_Nil: "purge ws [] = []"
  by (simp add: purge_def)

lemma key_purge_absent: "k \<notin> fst ` set reg \<Longrightarrow> (k, v) \<notin> set (purge ws reg)"
  using keys_purge [of ws reg] by force

lemma purge_Cons:
  "purge ws ((k, cls) # reg) =
     (if removeAll ws cls = [] then purge ws reg else (k, removeAll ws cls) # purge ws reg)"
  by (simp add: purge_def)

lemma reg_wf_purge: "reg_wf reg \<Longrightarrow> reg_wf (purge ws reg)"
proof -
  have keys: "distinct (map fst reg) \<Longrightarrow> distinct (map fst (purge ws reg))" for reg :: registry
    by (induction reg) (auto simp: purge_Cons purge_Nil key_purge_absent)
  have mem: "list_all (\<lambda>(symbol, cls). distinct cls) reg \<Longrightarrow>
             list_all (\<lambda>(symbol, cls). distinct cls) (purge ws reg)" for reg :: registry
    by (induction reg) (auto simp: purge_def distinct_removeAll)
  show "reg_wf reg \<Longrightarrow> reg_wf (purge ws reg)"
    by (simp add: reg_wf_def keys mem)
qed

lemma no_empty_purge: "no_empty_set (purge ws reg)"
  by (auto simp: no_empty_set_def purge_def list_all_iff)

lemma handle_invariants:
  assumes "reg_wf reg" and "no_empty_set reg"
  shows "reg_wf (fst (handle up e reg)) \<and> no_empty_set (fst (handle up e reg))"
proof (cases e)
  case (Message ws parsed)
  with assms show ?thesis
    by (auto simp: onMessage_def reg_wf_subscribe no_empty_subscribe reg_wf_unsubscribe
          no_empty_unsubscribe split: option.splits outcome.splits)
next
  case (Close ws)
  from assms(1) have "fst (onClose ws reg) = purge ws reg"
    by (simp add: onClose_purge reg_wf_def)
  with assms Close show ?thesis
    by (simp add: reg_wf_purge no_empty_purge)
next
  case (Tick readyState)
  with assms show ?thesis by (simp add: tick_def)
qed

lemma run_invariants:
  "reg_wf reg \<Longrightarrow> no_empty_set reg \<Longrightarrow>
   reg_wf (run up es reg) \<and> no_empty_set (run up es reg)"
proof (induction es arbitrary: reg)
  case Nil
  then show ?case by simp
next
  case (Cons e es)
  from handle_invariants [OF Cons.prems, of up e] Cons.IH show ?case by simp
qed

lemma subscribersOf_purge:
  "distinct (map fst reg) \<Longrightarrow> subscribersOf (purge ws reg) s = removeAll ws (subscribersOf reg s)"
proof (induction reg)
  case Nil
  then show ?case by (simp add: purge_def subscribersOf_def Map_get_def)
next
  case (Cons e reg)
  obtain k cls where e: "e = (k, cls)" by (cases e)
  from Cons.prems e have "k \<notin> fst ` set (purge ws reg)"
    using keys_purge [of ws reg] by auto
  then have absent: "map_of (purge ws reg) k = None"
    by (simp add: map_of_eq_None_iff)
  from Cons e absent show ?case
    by (auto simp: purge_Cons subscribersOf_def Map_get_def split: option.splits)
qed

lemma fixed_close_forEach_split:
  "distinct (map fst (pre @ todo)) \<Longrightarrow>
   fixed_close_forEach ws todo (pre @ todo) =
     pre @ map (\<lambda>(symbol, cls). (symbol, removeAll ws cls)) todo"
proof (induction todo arbitrary: pre)
  case Nil
  then show ?case by simp
next
  case (Cons e todo)
  obtain k cls where e: "e = (k, cls)" by (cases e)
  from Cons.prems e have k1: "k \<notin> set (map fst pre)" by auto
  have "distinct (map fst ((pre @ [(k, removeAll ws cls)]) @ todo))"
    using Cons.prems e by auto
  from Cons.IH [OF this] show ?case
    using k1 e by (simp add: Map_set_append Set_delete_def)
qed

lemma fixed_onClose_map:
  "distinct (map fst (subscriptions st)) \<Longrightarrow>
   subscriptions (fst (fixed_onClose ws st)) =
     map (\<lambda>(symbol, cls). (symbol, removeAll ws cls)) (subscriptions st)"
  using fixed_close_forEach_split [of "[]" "subscriptions st" ws] by (simp add: fixed_onClose_def)

lemma subscribersOf_map_removeAll:
  "subscribersOf (map (\<lambda>(symbol, cls). (symbol, removeAll ws cls)) reg) s =
     removeAll ws (subscribersOf reg s)"
  by (induction reg) (auto simp: subscribersOf_def Map_get_def)

section \<open>Properties of the message and close handlers\<close>

text \<open>
  Claim C3. Processing the close of a connection removes it from the subscriber set of
  every symbol, however many it was subscribed to: afterwards no entry of the registry
  contains it, and every symbol's subscribers are the former ones without it. This holds
  for the close handler of index.ts and for that of fixed-index.ts.
\<close>

theorem disconnect_purges_connection:
  assumes "reg_wf reg" and "reg_wf (subscriptions st)"
  shows "list_all (\<lambda>(symbol, cls). ws \<notin> set cls) (fst (onClose ws reg))
       \<and> (\<forall>symbol. subscribersOf (fst (onClose ws reg)) symbol
                      = removeAll ws (subscribersOf reg symbol))
       \<and> list_all (\<lambda>(symbol, cls). ws \<notin> set cls) (subscriptions (fst (fixed_onClose ws st)))
       \<and> (\<forall>symbol. subscribersOf (subscriptions (fst (fixed_onClose ws st))) symbol
                      = removeAll ws (subscribersOf (subscriptions st) symbol))"
proof -
  from assms have d1: "distinct (map fst reg)" and d2: "distinct (map fst (subscriptions st))"
    by (simp_all add: reg_wf_def)
  have a: "list_all (\<lambda>(symbol, cls). ws \<notin> set cls) (purge ws reg)"
    by (auto simp: list_all_iff purge_def)
  have b: "list_all (\<lambda>(symbol, cls). ws \<notin> set cls)
             (map (\<lambda>(symbol, cls). (symbol, removeAll ws cls)) (subscriptions st))"
    by (auto simp: list_all_iff)
  show ?thesis
    using a b by (simp add: onClose_purge [OF d1] fixed_onClose_map [OF d2]
        subscribersOf_purge [OF d1] subscribersOf_map_removeAll)
qed

theorem disconnect_purges_connection_witness:
  "reg_wf [(''AAPL'', [1, 2]), (''MSFT'', [1]), (''GOOG'', [2, 1])]
   \<and> fst (onClose 1 [(''AAPL'', [1, 2]), (''MSFT'', [1]), (''GOOG'', [2, 1])])
       = [(''AAPL'', [2]), (''GOOG'', [2])]
   \<and> list_all (\<lambda>(symbol, cls). 1 \<notin> set cls)
        (fst (onClose 1 [(''AAPL'', [1, 2]), (''MSFT'', [1]), (''GOOG'', [2, 1])]))
   \<and> subscriptions (fst (fixed_onClose 1
         \<lparr>clients = [1, 2], subscriptions = [(''AAPL'', [1, 2]), (''MSFT'', [1]), (''GOOG'', [2, 1])]\<rparr>))
       = [(''AAPL'', [2]), (''MSFT'', []), (''GOOG'', [2])]"
  using disconnect_purges_connection [of "[(''AAPL'', [1, 2]), (''MSFT'', [1]), (''GOOG'', [2, 1])]"
      "\<lparr>clients = [1, 2], subscriptions = [(''AAPL'', [1, 2]), (''MSFT'', [1]), (''GOOG'', [2, 1])]\<rparr>" 1]
  by (simp add: reg_wf_def onClose_def fixed_onClose_def Set_delete_def Map_delete_def)

lemma symbolOf_Ok: "symbolOf up data = Ok symbol \<Longrightarrow> \<exists>s. getProp data ''symbol'' = Ok (Some (JStr s))"
  by (auto simp: symbolOf_def split: outcome.splits elim: callToUpperCase.elims)

text \<open>
  Claim C8. An inbound message that is not a well-formed subscribe or unsubscribe request
  (it does not parse, its symbol is missing or is not a string, or its type is not one of
  the two kinds) leaves the registry as it was, and the handler does nothing but write
  to the console: it sends nothing and does not close the connection.
\<close>

theorem malformed_message_ignored:
  assumes "\<not> well_formed_request parsed"
  shows "fst (onMessage up ws parsed reg) = reg
       \<and> list_all (\<lambda>a. a = ConsoleLog \<or> a = ConsoleError) (snd (onMessage up ws parsed reg))"
proof (cases parsed)
  case None
  then show ?thesis by (simp add: onMessage_def)
next
  case (Some data)
  show ?thesis
  proof (cases "symbolOf up data")
    case Throw
    with Some show ?thesis
      by (simp add: onMessage_def split: outcome.splits)
  next
    case (Ok symbol)
    from symbolOf_Ok [OF this] obtain s where "getProp data ''symbol'' = Ok (Some (JStr s))" ..
    with assms Some show ?thesis
      by (auto simp: onMessage_def well_formed_request_def split: outcome.splits)
  qed
qed

theorem malformed_message_ignored_witness:
  "\<not> well_formed_request None
   \<and> onMessage (\<lambda>s. s) 1 None [(''AAPL'', [1, 2])] = ([(''AAPL'', [1, 2])], [ConsoleError])
   \<and> \<not> well_formed_request (Some (JObj [(''type'', JStr ''SUBSCRIBE_STOCK'')]))
   \<and> fst (onMessage (\<lambda>s. s) 1 (Some (JObj [(''type'', JStr ''SUBSCRIBE_STOCK'')])) [(''AAPL'', [1, 2])])
       = [(''AAPL'', [1, 2])]
   \<and> \<not> well_formed_request (Some (JObj [(''type'', JStr ''PING''), (''symbol'', JStr ''AAPL'')]))
   \<and> fst (onMessage (\<lambda>s. s) 1 (Some (JObj [(''type'', JStr ''PING''), (''symbol'', JStr ''AAPL'')]))
          [(''AAPL'', [1, 2])])
       = [(''AAPL'', [1, 2])]"
  using malformed_message_ignored [of None "\<lambda>s. s" 1 "[(''AAPL'', [1, 2])]"]
    malformed_message_ignored [of "Some (JObj [(''type'', JStr ''SUBSCRIBE_STOCK'')])" "\<lambda>s. s" 1
      "[(''AAPL'', [1, 2])]"]
    malformed_message_ignored [of "Some (JObj [(''type'', JStr ''PING''), (''symbol'', JStr ''AAPL'')])"
      "\<lambda>s. s" 1 "[(''AAPL'', [1, 2])]"]
  by (simp add: well_formed_request_def onMessage_def)

lemma count_list_distinct: "distinct xs \<Longrightarrow> x \<in> set xs \<Longrightarrow> count_list xs x = 1"
  by (induction xs) auto

text \<open>
  Claim C2. In a registry the server can be in (duplicate-free, no empty subscriber set),
  processing SUBSCRIBE_STOCK for a symbol and a connection twice gives the registry that
  processing it once gives, with exactly one entry for the connection in the symbol's
  subscriber set; and UNSUBSCRIBE_STOCK for a connection that is not a subscriber of the
  symbol leaves the registry unchanged.
\<close>

theorem subscribe_idempotent:
  assumes "reg_wf reg" and "no_empty_set reg"
    and "getProp sub ''type'' = Ok (Some (JStr ''SUBSCRIBE_STOCK''))"
    and "getProp sub ''symbol'' = Ok (Some (JStr s))"
    and "getProp unsub ''type'' = Ok (Some (JStr ''UNSUBSCRIBE_STOCK''))"
    and "getProp unsub ''symbol'' = Ok (Some (JStr s'))"
  shows "fst (onMessage up ws (Some sub) (fst (onMessage up ws (Some sub) reg)))
           = fst (onMessage up ws (Some sub) reg)
       \<and> count_list (subscribersOf (fst (onMessage up ws (Some sub) reg)) (up s)) ws = 1
       \<and> (ws \<notin> set (subscribersOf reg (up s')) \<longrightarrow>
            fst (onMessage up ws (Some unsub) reg) = reg)"
proof -
  have sub: "fst (onMessage up ws (Some sub) r) = subscribe r (up s) ws" for r
    using assms(3,4) by (simp add: onMessage_def symbolOf_def)
  have unsub: "fst (onMessage up ws (Some unsub) reg) = unsubscribe reg (up s') ws"
    using assms(5,6) by (simp add: onMessage_def symbolOf_def)
  have "distinct (subscribersOf reg (up s))"
    using assms(1) list_all_map_of [of "\<lambda>(symbol, cls). distinct cls" reg "up s"]
    by (auto simp: reg_wf_def subscribersOf_def Map_get_def split: option.splits)
  then have "count_list (Set_add (subscribersOf reg (up s)) ws) ws = 1"
    by (auto simp: Set_add_def count_list_distinct)
  then show ?thesis
    using assms(2) by (simp add: sub unsub subscribe_twice subscribersOf_subscribe
        unsubscribe_non_member)
qed

theorem subscribe_idempotent_witness:
  "reg_wf [(''MSFT'', [2])] \<and> no_empty_set [(''MSFT'', [2])]
   \<and> fst (onMessage (\<lambda>s. s) 1
          (Some (JObj [(''type'', JStr ''SUBSCRIBE_STOCK''), (''symbol'', JStr ''AAPL'')]))
          [(''MSFT'', [2])])
       = [(''MSFT'', [2]), (''AAPL'', [1])]
   \<and> fst (onMessage (\<lambda>s. s) 1
          (Some (JObj [(''type'', JStr ''SUBSCRIBE_STOCK''), (''symbol'', JStr ''AAPL'')]))
          [(''MSFT'', [2]), (''AAPL'', [1])])
       = [(''MSFT'', [2]), (''AAPL'', [1])]
   \<and> 1 \<notin> set (subscribersOf [(''MSFT'', [2])] ''MSFT'')
   \<and> fst (onMessage (\<lambda>s. s) 1
          (Some (JObj [(''type'', JStr ''UNSUBSCRIBE_STOCK''), (''symbol'', JStr ''MSFT'')]))
          [(''MSFT'', [2])])
       = [(''MSFT'', [2])]"
  using subscribe_idempotent [of "[(''MSFT'', [2])]"
      "JObj [(''type'', JStr ''SUBSCRIBE_STOCK''), (''symbol'', JStr ''AAPL'')]" "''AAPL''"
      "JObj [(''type'', JStr ''UNSUBSCRIBE_STOCK''), (''symbol'', JStr ''MSFT'')]" "''MSFT''"
      "\<lambda>s. s" 1]
  by (simp add: reg_wf_def no_empty_set_def onMessage_def symbolOf_def subscribe_def
      get_add_def Map_has_def Map_get_def Set_add_def subscribersOf_def)

text \<open>
  Claim C10. In index.ts, after any sequence of message, close and timer events from the
  empty registry, no symbol of \<open>activeSubscriptions\<close> has an empty subscriber set, so
  the periodic update never visits a symbol without subscribers.
\<close>

theorem no_symbol_without_subscribers:
  "no_empty_set (run up es [])
   \<and> (\<forall>symbol. Map_has (run up es []) symbol \<longrightarrow> subscribersOf (run up es []) symbol \<noteq> [])"
proof -
  have inv: "no_empty_set (run up es [])"
    using run_invariants [of "[]" up es] by (simp add: reg_wf_def no_empty_set_def)
  have "subscribersOf (run up es []) symbol \<noteq> []" if "Map_has (run up es []) symbol" for symbol
  proof -
    from that obtain cls where m: "map_of (run up es []) symbol = Some cls"
      by (auto simp: Map_has_def)
    from list_all_map_of [OF inv [unfolded no_empty_set_def] m] m show ?thesis
      by (simp add: subscribersOf_def Map_get_def)
  qed
  with inv show ?thesis by simp
qed

theorem no_symbol_without_subscribers_witness:
  "run (\<lambda>s. s)
     [Message 1 (Some (JObj [(''type'', JStr ''SUBSCRIBE_STOCK''), (''symbol'', JStr ''AAPL'')])),
      Message 2 (Some (JObj [(''type'', JStr ''SUBSCRIBE_STOCK''), (''symbol'', JStr ''AAPL'')])),
      Message 1 (Some (JObj [(''type'', JStr ''SUBSCRIBE_STOCK''), (''symbol'', JStr ''MSFT'')])),
      Message 1 (Some (JObj [(''type'', JStr ''UNSUBSCRIBE_STOCK''), (''symbol'', JStr ''AAPL'')])),
      Close 2] []
     = [(''MSFT'', [1])]
   \<and> no_empty_set (run (\<lambda>s. s)
     [Message 1 (Some (JObj [(''type'', JStr ''SUBSCRIBE_STOCK''), (''symbol'', JStr ''AAPL'')])),
      Message 2 (Some (JObj [(''type'', JStr ''SUBSCRIBE_STOCK''), (''symbol'', JStr ''AAPL'')])),
      Message 1 (Some (JObj [(''type'', JStr ''SUBSCRIBE_STOCK''), (''symbol'', JStr ''MSFT'')])),
      Message 1 (Some (JObj [(''type'', JStr ''UNSUBSCRIBE_STOCK''), (''symbol'', JStr ''AAPL'')])),
      Close 2] [])"
  using no_symbol_without_subscribers [of "\<lambda>s. s"
     "[Message 1 (Some (JObj [(''type'', JStr ''SUBSCRIBE_STOCK''), (''symbol'', JStr ''AAPL'')])),
      Message 2 (Some (JObj [(''type'', JStr ''SUBSCRIBE_STOCK''), (''symbol'', JStr ''AAPL'')])),
      Message 1 (Some (JObj [(''type'', JStr ''SUBSCRIBE_STOCK''), (''symbol'', JStr ''MSFT'')])),
      Message 1 (Some (JObj [(''type'', JStr ''UNSUBSCRIBE_STOCK''), (''symbol'', JStr ''AAPL'')])),
      Close 2]"]
  by (simp add: onMessage_def onClose_def symbolOf_def subscribe_def unsubscribe_def
      get_add_def get_delete_def get_size_is_0_def Map_has_def Map_get_def Map_delete_def
      Set_add_def Set_delete_def)

section \<open>Properties of the rounding\<close>

lemma round_half_even_error: "\<bar>of_int (round_half_even x) - x\<bar> \<le> 1 / 2"
  by (auto simp: round_half_even_def Let_def abs_le_iff)

lemma binary64_at:
  assumes "ulp = 2 powr of_int k" and "2 ^ 52 * ulp \<le> \<bar>x\<bar>" and "\<bar>x\<bar> < 2 ^ 53 * ulp"
  shows "binary64 x = of_int (round_half_even (x / ulp)) * ulp"
proof -
  have pos: "0 < ulp" using assms(1) by simp
  with assms(2) have x: "x \<noteq> 0" "0 < \<bar>x\<bar>"
    by (smt (verit) mult_pos_pos zero_less_power)+
  have lo: "2 powr (52 + of_int k) \<le> \<bar>x\<bar>"
    using assms(1,2) by (simp add: powr_add powr_numeral)
  have hi: "\<bar>x\<bar> < 2 powr (53 + of_int k)"
    using assms(1,3) by (simp add: powr_add powr_numeral)
  have "52 + of_int k \<le> log 2 \<bar>x\<bar>"
    using lo x(2) by (simp add: le_log_iff)
  moreover have "log 2 \<bar>x\<bar> < 53 + of_int k"
    using hi x(2) by (simp add: log_less_iff)
  ultimately have "\<lfloor>log 2 \<bar>x\<bar>\<rfloor> = 52 + k"
    by (intro floor_unique) simp_all
  then show ?thesis
    using x(1) assms(1) by (simp add: binary64_def Let_def)
qed

lemma binary64_accurate: "\<bar>binary64 x - x\<bar> \<le> \<bar>x\<bar> / 2 ^ 53"
proof (cases "x = 0")
  case True
  then show ?thesis by (simp add: binary64_def)
next
  case False
  define e where "e = \<lfloor>log 2 \<bar>x\<bar>\<rfloor>"
  define ulp :: real where "ulp = 2 powr (of_int e - 52)"
  have pos: "0 < ulp" by (simp add: ulp_def)
  have "2 powr of_int e \<le> \<bar>x\<bar>"
    using False by (simp add: e_def powr_le_iff)
  then have big: "2 ^ 52 * ulp \<le> \<bar>x\<bar>"
    by (simp add: ulp_def powr_diff powr_numeral)
  have "\<bar>of_int (round_half_even (x / ulp)) - x / ulp\<bar> \<le> 1 / 2"
    by (rule round_half_even_error)
  then have "\<bar>of_int (round_half_even (x / ulp)) - x / ulp\<bar> * ulp \<le> 1 / 2 * ulp"
    using pos by (intro mult_right_mono) simp_all
  moreover have "\<bar>of_int (round_half_even (x / ulp)) - x / ulp\<bar> * ulp
      = \<bar>of_int (round_half_even (x / ulp)) * ulp - x\<bar>"
  proof -
    have "\<bar>of_int (round_half_even (x / ulp)) - x / ulp\<bar> * ulp
        = \<bar>(of_int (round_half_even (x / ulp)) - x / ulp) * ulp\<bar>"
      using pos by (simp add: abs_mult)
    also have "(of_int (round_half_even (x / ulp)) - x / ulp) * ulp
        = of_int (round_half_even (x / ulp)) * ulp - x"
      using pos by (simp add: left_diff_distrib)
    finally show ?thesis .
  qed
  ultimately have "\<bar>of_int (round_half_even (x / ulp)) * ulp - x\<bar> \<le> ulp / 2" by simp
  moreover have "ulp / 2 \<le> \<bar>x\<bar> / 2 ^ 53" using big by simp
  moreover have "binary64 x = of_int (round_half_even (x / ulp)) * ulp"
    using False by (simp add: binary64_def Let_def ulp_def e_def)
  ultimately show ?thesis by simp
qed

lemma round_half_even_eq: "\<bar>x - of_int n\<bar> < 1 / 2 \<Longrightarrow> round_half_even x = n"
proof -
  assume a: "\<bar>x - of_int n\<bar> < 1 / 2"
  show ?thesis
  proof (cases "of_int n \<le> x")
    case True
    with a have "\<lfloor>x\<rfloor> = n" by (intro floor_unique) linarith+
    with a True show ?thesis by (simp add: round_half_even_def)
  next
    case False
    with a have "\<lfloor>x\<rfloor> = n - 1" by (intro floor_unique) (simp, linarith)+
    with a False show ?thesis by (simp add: round_half_even_def Let_def)
  qed
qed

lemma binary64_scaled:
  assumes "2 ^ 52 \<le> \<bar>x\<bar> * 2 ^ j" and "\<bar>x\<bar> * 2 ^ j < 2 ^ 53"
  shows "binary64 x = of_int (round_half_even (x * 2 ^ j)) / 2 ^ j"
proof -
  define ulp :: real where "ulp = 1 / 2 ^ j"
  have u: "ulp = 2 powr of_int (- int j)"
    by (simp add: ulp_def powr_minus_divide powr_realpow)
  have "2 ^ 52 * ulp \<le> \<bar>x\<bar>" "\<bar>x\<bar> < 2 ^ 53 * ulp"
    using assms by (simp_all add: ulp_def field_simps)
  from binary64_at [OF u this] show ?thesis
    by (simp add: ulp_def)
qed

lemma binary64_eq:
  fixes m :: real
  assumes "m \<in> \<int>" and "2 ^ 52 \<le> \<bar>x\<bar> * 2 ^ j" and "\<bar>x\<bar> * 2 ^ j < 2 ^ 53"
    and "\<bar>x * 2 ^ j - m\<bar> < 1 / 2"
  shows "binary64 x = m / 2 ^ j"
proof -
  from assms(1) obtain n :: int where m: "m = of_int n" by (auto elim: Ints_cases)
  have "round_half_even (x * 2 ^ j) = n"
    using assms(4) m by (intro round_half_even_eq) simp
  with binary64_scaled [OF assms(2,3)] m show ?thesis by simp
qed

lemma binary64_abs_le_1:
  assumes "\<bar>x\<bar> \<le> 1"
  shows "\<bar>binary64 x\<bar> \<le> 1"
proof -
  consider (zero) "x = 0" | (one) "\<bar>x\<bar> = 1" | (small) "0 < \<bar>x\<bar>" "\<bar>x\<bar> < 1"
    using assms by fastforce
  then show ?thesis
  proof cases
    case zero
    then show ?thesis by (simp add: binary64_def)
  next
    case one
    have "binary64 1 = 1" using binary64_eq [of "2 ^ 52" 1 52] by simp
    moreover have "binary64 (- 1) = - 1" using binary64_eq [of "- (2 ^ 52)" "- 1" 52] by simp
    ultimately show ?thesis using one by (cases "0 \<le> x") (auto simp: abs_if)
  next
    case small
    define e where "e = \<lfloor>log 2 \<bar>x\<bar>\<rfloor>"
    define ulp :: real where "ulp = 2 powr (of_int e - 52)"
    define n where "n = round_half_even (x / ulp)"
    have pos: "0 < ulp" by (simp add: ulp_def)
    have "log 2 \<bar>x\<bar> < 0" using small by simp
    then have e: "e \<le> - 1" by (simp add: e_def floor_le_iff)
    have "log 2 \<bar>x\<bar> < of_int e + 1" by (simp add: e_def)
    then have "\<bar>x\<bar> < 2 powr (of_int e + 1)"
      using small(1) by (simp add: log_less_iff)
    also have "\<dots> = 2 ^ 53 * ulp"
      by (simp add: ulp_def powr_diff powr_add powr_numeral)
    finally have "\<bar>x / ulp\<bar> < 2 ^ 53"
      using pos by (simp add: field_simps)
    then have "\<bar>x / ulp\<bar> < 9007199254740992" by simp
    moreover have "\<bar>real_of_int n - x / ulp\<bar> \<le> 1 / 2"
      unfolding n_def by (rule round_half_even_error)
    ultimately have "\<bar>real_of_int n\<bar> < 9007199254740992 + 1"
      by linarith
    then have "\<bar>real_of_int n\<bar> < real_of_int (9007199254740992 + 1)" by simp
    then have "\<bar>n\<bar> < 9007199254740992 + 1"
      unfolding of_int_abs [symmetric] of_int_less_iff .
    then have "\<bar>n\<bar> \<le> 9007199254740992" by simp
    then have "real_of_int \<bar>n\<bar> \<le> real_of_int 9007199254740992"
      unfolding of_int_le_iff .
    then have "\<bar>real_of_int n\<bar> \<le> 2 ^ 53" by simp
    then have "\<bar>real_of_int n\<bar> * ulp \<le> 2 ^ 53 * ulp"
      using pos by (intro mult_right_mono) simp_all
    also have "2 ^ 53 * ulp = 2 powr (of_int e + 1)"
      by (simp add: ulp_def powr_diff powr_add powr_numeral)
    also have "\<dots> \<le> 2 powr 0"
      using e by (intro powr_mono) simp_all
    finally have "\<bar>real_of_int n * ulp\<bar> \<le> 1"
      using pos by (simp add: abs_mult)
    moreover have "binary64 x = real_of_int n * ulp"
      using small(1) by (simp add: binary64_def Let_def n_def ulp_def e_def)
    ultimately show ?thesis by simp
  qed
qed

lemma binary64_within:
  assumes "\<bar>x\<bar> \<le> M"
  shows "\<bar>binary64 x - x\<bar> \<le> M / 2 ^ 53"
proof -
  have "\<bar>x\<bar> / 2 ^ 53 \<le> M / 2 ^ 53" using assms by (simp add: divide_right_mono)
  with binary64_accurate [of x] show ?thesis by linarith
qed

text \<open>The doubles of the literals and of the times used below.\<close>

lemma binary64_0_02: "binary64 (2 / 100) = 5764607523034235 / 2 ^ 58"
  by (rule binary64_eq) simp_all

lemma binary64_1: "binary64 1 = 1"
  using binary64_eq [of "2 ^ 52" 1 52] by simp

lemma t_1793664000000: "binary64 (1793664000000 / 300000) = 6419773516677120 / 2 ^ 30"
  by (rule binary64_eq) simp_all

lemma t_1793664299999: "binary64 (1793664299999 / 300000) = 6419774590415365 / 2 ^ 30"
  by (rule binary64_eq) simp_all

lemma t_1200000: "binary64 (1200000 / 300000) = 4503599627370496 / 2 ^ 50"
  by (rule binary64_eq) simp_all

section \<open>Properties of the sine\<close>

text \<open>
  Bounds of \<open>sin 1\<close> and \<open>sin 4\<close> from their Maclaurin polynomials, tight enough to
  determine the nearest double.
\<close>

lemma sin_1_tight:
  "102360822438075317 / 121645100408832000 - 1 / 51090942171709440000 \<le> sin (1::real)
   \<and> sin (1::real) \<le> 102360822438075317 / 121645100408832000 + 1 / 51090942171709440000"
proof -
  have coeffs: "sin_coeff 0 = 0" "sin_coeff (Suc 0) = 1" "sin_coeff 2 = 0" "sin_coeff 3 = - 1 / 6"
    "sin_coeff 4 = 0" "sin_coeff 5 = 1 / 120" "sin_coeff 6 = 0" "sin_coeff 7 = - 1 / 5040"
    "sin_coeff 8 = 0" "sin_coeff 9 = 1 / 362880" "sin_coeff 10 = 0"
    "sin_coeff 11 = - 1 / 39916800" "sin_coeff 12 = 0" "sin_coeff 13 = 1 / 6227020800"
    "sin_coeff 14 = 0" "sin_coeff 15 = - 1 / 1307674368000" "sin_coeff 16 = 0"
    "sin_coeff 17 = 1 / 355687428096000" "sin_coeff 18 = 0"
    "sin_coeff 19 = - 1 / 121645100408832000" "sin_coeff 20 = 0"
    by (simp_all add: sin_coeff_def fact_numeral)
  have sum: "(\<Sum>m<21. sin_coeff m * (1::real) ^ m) = 102360822438075317 / 121645100408832000"
    by (simp add: lessThan_nat_numeral coeffs)
  have "\<bar>sin (1::real) - (\<Sum>m<21. sin_coeff m * 1 ^ m)\<bar> \<le> inverse (fact 21) * \<bar>1\<bar> ^ 21"
    by (rule Maclaurin_sin_bound)
  then have "\<bar>sin (1::real) - 102360822438075317 / 121645100408832000\<bar>
      \<le> 1 / 51090942171709440000"
    by (simp only: sum) (simp add: fact_numeral inverse_eq_divide)
  then show ?thesis by linarith
qed

lemma sin_1_bounds: "841470 / 1000000 \<le> sin (1::real) \<and> sin (1::real) \<le> 841471 / 1000000"
  using sin_1_tight by simp

lemma sin64_1: "sin64 1 = 7579296827247854 / 2 ^ 53"
  unfolding sin64_def of_int_1
  using sin_1_tight by (intro binary64_eq) simp_all

lemma sin_4_tight:
  "- 17486396755140097665357388 / 23105627774159521118653125 - 274877906944 / 2405873491984360136479756640625 \<le> sin (4::real)
   \<and> sin (4::real) \<le> - 17486396755140097665357388 / 23105627774159521118653125 + 274877906944 / 2405873491984360136479756640625"
proof -
  have coeffs: "sin_coeff 0 = 0"
    "sin_coeff (Suc 0) = 1"
    "sin_coeff 2 = 0"
    "sin_coeff 3 = - 1 / 6"
    "sin_coeff 4 = 0"
    "sin_coeff 5 = 1 / 120"
    "sin_coeff 6 = 0"
    "sin_coeff 7 = - 1 / 5040"
    "sin_coeff 8 = 0"
    "sin_coeff 9 = 1 / 362880"
    "sin_coeff 10 = 0"
    "sin_coeff 11 = - 1 / 39916800"
    "sin_coeff 12 = 0"
    "sin_coeff 13 = 1 / 6227020800"
    "sin_coeff 14 = 0"
    "sin_coeff 15 = - 1 / 1307674368000"
    "sin_coeff 16 = 0"
    "sin_coeff 17 = 1 / 355687428096000"
    "sin_coeff 18 = 0"
    "sin_coeff 19 = - 1 / 121645100408832000"
    "sin_coeff 20 = 0"
    "sin_coeff 21 = 1 / 51090942171709440000"
    "sin_coeff 22 = 0"
    "sin_coeff 23 = - 1 / 25852016738884976640000"
    "sin_coeff 24 = 0"
    "sin_coeff 25 = 1 / 15511210043330985984000000"
    "sin_coeff 26 = 0"
    "sin_coeff 27 = - 1 / 10888869450418352160768000000"
    "sin_coeff 28 = 0"
    "sin_coeff 29 = 1 / 8841761993739701954543616000000"
    "sin_coeff 30 = 0"
    "sin_coeff 31 = - 1 / 8222838654177922817725562880000000"
    "sin_coeff 32 = 0"
    "sin_coeff 33 = 1 / 8683317618811886495518194401280000000"
    "sin_coeff 34 = 0"
    by (simp_all add: sin_coeff_def fact_numeral)
  have sum: "(\<Sum>m<35. sin_coeff m * (4::real) ^ m) = - 17486396755140097665357388 / 23105627774159521118653125"
    by (simp add: lessThan_nat_numeral coeffs)
  have "\<bar>sin (4::real) - (\<Sum>m<35. sin_coeff m * 4 ^ m)\<bar> \<le> inverse (fact 35) * \<bar>4\<bar> ^ 35"
    by (rule Maclaurin_sin_bound)
  then have "\<bar>sin (4::real) - (- 17486396755140097665357388 / 23105627774159521118653125)\<bar> \<le> 274877906944 / 2405873491984360136479756640625"
    by (simp only: sum) (simp add: fact_numeral inverse_eq_divide)
  then show ?thesis by linarith
qed

lemma sin64_4: "sin64 4 = - 6816670871723694 / 2 ^ 53"
proof -
  have "binary64 (sin (4::real)) = - 6816670871723694 / 2 ^ 53"
    using sin_4_tight by (intro binary64_eq) simp_all
  then show ?thesis by (simp add: sin64_def)
qed

lemma sine_candidates:
  assumes "binary64 s = s" and "\<bar>s - sin 1\<bar> \<le> 1 / 2 ^ 53"
  shows "s = 7579296827247854 / 2 ^ 53 \<or> s = 7579296827247855 / 2 ^ 53"
proof -
  note t = sin_1_tight
  have "(1::real) / 2 ^ 53 \<le> 1 / 1000" by simp
  with assms(2) sin_1_bounds have "1 / 2 \<le> s" "s < 1" by linarith+
  then have range: "2 ^ 52 \<le> \<bar>s\<bar> * 2 ^ 53" "\<bar>s\<bar> * 2 ^ 53 < 2 ^ 53"
    by simp_all
  define n where "n = round_half_even (s * 2 ^ 53)"
  from binary64_scaled [OF range] assms(1) have s: "s = of_int n / 2 ^ 53"
    by (simp add: n_def)
  from assms(2) have "\<bar>real_of_int n / 2 ^ 53 - sin 1\<bar> * 2 ^ 53 \<le> 1 / 2 ^ 53 * 2 ^ 53"
    unfolding s by (intro mult_right_mono) simp_all
  then have "\<bar>real_of_int n - sin 1 * 2 ^ 53\<bar> \<le> 1"
    by (simp add: abs_le_iff field_simps)
  moreover from t have "7579296827247854 < sin (1::real) * 2 ^ 53"
    "sin (1::real) * 2 ^ 53 < 7579296827247855"
    by simp_all
  ultimately have "7579296827247853 < real_of_int n" "real_of_int n < 7579296827247856"
    by linarith+
  then have "7579296827247853 < n" "n < 7579296827247856" by linarith+
  then have "n = 7579296827247854 \<or> n = 7579296827247855" by linarith
  with s show ?thesis by auto
qed

text \<open>
  The sine of a bucket of the present time. Two values of the sine on either side of
  \<open>pi\<close> bracket it closely enough to reduce the argument 5978880.
\<close>

lemma sin_coeffs_21:
  "sin_coeff 0 = 0"
  "sin_coeff (Suc 0) = 1"
  "sin_coeff 2 = 0"
  "sin_coeff 3 = - 1 / 6"
  "sin_coeff 4 = 0"
  "sin_coeff 5 = 1 / 120"
  "sin_coeff 6 = 0"
  "sin_coeff 7 = - 1 / 5040"
  "sin_coeff 8 = 0"
  "sin_coeff 9 = 1 / 362880"
  "sin_coeff 10 = 0"
  "sin_coeff 11 = - 1 / 39916800"
  "sin_coeff 12 = 0"
  "sin_coeff 13 = 1 / 6227020800"
  "sin_coeff 14 = 0"
  "sin_coeff 15 = - 1 / 1307674368000"
  "sin_coeff 16 = 0"
  "sin_coeff 17 = 1 / 355687428096000"
  "sin_coeff 18 = 0"
  "sin_coeff 19 = - 1 / 121645100408832000"
  "sin_coeff 20 = 0"
  by (simp_all add: sin_coeff_def fact_numeral)

lemma sin_below_pi: "0 < sin (26353589 / 8388608 :: real)"
proof -
  have sum: "(\<Sum>m<21. sin_coeff m * (26353589 / 8388608 :: real) ^ m) = 496670759819434662716638203021140113596008954634104820450124567054096007578588224577123225615456528015439923572717561822664828510156918031 / 15889604515184784727235186193839254902647610903608353319964848179818148998547596578110540759798365175142350796990029694881839176922755405709312000"
    by (simp add: lessThan_nat_numeral sin_coeffs_21 power_divide)
  have "\<bar>sin (26353589 / 8388608 :: real) - (\<Sum>m<21. sin_coeff m * (26353589 / 8388608) ^ m)\<bar>
      \<le> inverse (fact 21) * \<bar>26353589 / 8388608\<bar> ^ 21"
    by (rule Maclaurin_sin_bound)
  then have "\<bar>sin (26353589 / 8388608 :: real) - (496670759819434662716638203021140113596008954634104820450124567054096007578588224577123225615456528015439923572717561822664828510156918031 / 15889604515184784727235186193839254902647610903608353319964848179818148998547596578110540759798365175142350796990029694881839176922755405709312000)\<bar> \<le> 36214420416558444822980160179207093632382709411650266847224390133895055869641856312476309330439137462532810746371161230931909931124097121310781659315960231 / 67154978803710373120647837065098028781764966936911298678846628346651608271938940975043708503567740716466055275920763607807371713312201616373614604500676462510080000"
    by (simp only: sum) (simp add: fact_numeral inverse_eq_divide power_divide)
  then show ?thesis by linarith
qed

lemma sin_above_pi: "sin (52707179 / 16777216 :: real) < 0"
proof -
  have sum: "(\<Sum>m<21. sin_coeff m * (52707179 / 16777216 :: real) ^ m) = - 13094366553565318845760326599571270263968247123325301143158519441108972355474066577322900822110963719127819741514990692400019818283622188157736963 / 461930420756722725056172961018661884909039325904001457357142311963956168504958553656338509178640613639339880763475973614631831643406685746235491483648000"
    by (simp add: lessThan_nat_numeral sin_coeffs_21 power_divide)
  have "\<bar>sin (52707179 / 16777216 :: real) - (\<Sum>m<21. sin_coeff m * (52707179 / 16777216) ^ m)\<bar>
      \<le> inverse (fact 21) * \<bar>52707179 / 16777216\<bar> ^ 21"
    by (rule Maclaurin_sin_bound)
  then have "\<bar>sin (52707179 / 16777216 :: real) - (- 13094366553565318845760326599571270263968247123325301143158519441108972355474066577322900822110963719127819741514990692400019818283622188157736963 / 461930420756722725056172961018661884909039325904001457357142311963956168504958553656338509178640613639339880763475973614631831643406685746235491483648000)\<bar> \<le> 4206986340620093528063739536328977558875320568186784523825086743181046978156593007745187242221095585009988757964220682989917769267466724546729217096713384440253 / 7801311265466523358027825665125786483553887215428194382192042922094184134762543979388345201567952760936869371213259019216234573944624182622279923283085277695081185280000"
    by (simp only: sum) (simp add: fact_numeral inverse_eq_divide power_divide)
  then show ?thesis by linarith
qed

lemma pi_bracket: "52707178 / 16777216 < pi \<and> pi < 52707179 / 16777216"
proof -
  have "52707178 / 16777216 < pi"
  proof (rule ccontr)
    assume "\<not> 52707178 / 16777216 < pi"
    then have "pi \<le> 52707178 / 16777216" by simp
    moreover have "(52707178 / 16777216 :: real) < 2 * pi" using pi_ge_two by simp
    ultimately have "sin (52707178 / 16777216 :: real) \<le> 0" by (rule sin_le_zero)
    with sin_below_pi show False by simp
  qed
  moreover have "pi < 52707179 / 16777216"
  proof (rule ccontr)
    assume "\<not> pi < 52707179 / 16777216"
    then have "(52707179 / 16777216 :: real) \<le> pi" by simp
    then have "0 \<le> sin (52707179 / 16777216 :: real)" by (intro sin_ge_zero) simp_all
    with sin_above_pi show False by simp
  qed
  ultimately show ?thesis by simp
qed

lemma sin_5978880: "1 / 2 \<le> sin (5978880 :: real)"
proof -
  define z where "z = 1903137 * pi - 5978880"
  from pi_bracket have z: "1 \<le> z" "z \<le> 3 / 2" by (simp_all add: z_def)
  from pi_bracket have p: "3 < pi" by simp
  have "(5978880 :: real) = (pi - z) + 2 * pi * of_int 951568"
    by (simp add: z_def)
  then have "sin (5978880 :: real) = sin ((pi - z) + 2 * pi * of_int 951568)" by simp
  also have "\<dots> = sin (pi - z)"
    unfolding sin_add [of "pi - z"] sin_int_2pin cos_int_2pin by simp
  also have "\<dots> = sin z" by simp
  finally have "sin (5978880 :: real) = sin z" .
  moreover have "sin (pi / 6) \<le> sin z"
    using z p pi_less_4 by (intro sin_monotone_2pi_le) simp_all
  ultimately show ?thesis by (simp add: sin_30)
qed

section \<open>Properties of the synthetic quote generator\<close>

text \<open>
  The generator's values in bucket 1 and in bucket 4, for the doubles nearest to
  \<open>sin 1\<close> and \<open>sin 4\<close>, step by step.
\<close>

lemma fluctuation_1: "binary64 (7579296827247854 / 2 ^ 53 * (5764607523034235 / 2 ^ 58)) = 4850749969438627 / 2 ^ 58"
  by (rule binary64_eq) simp_all

lemma fluctuation_1_next: "binary64 (7579296827247855 / 2 ^ 53 * (5764607523034235 / 2 ^ 58)) = 4850749969438627 / 2 ^ 58"
  by (rule binary64_eq) simp_all

lemma one_plus_1: "binary64 (1 + 4850749969438627 / 2 ^ 58) = 4579392595642975 / 2 ^ 52"
  by (rule binary64_eq) simp_all

lemma change_percent_1: "binary64 (4850749969438627 / 2 ^ 58 * 100) = 7579296827247855 / 2 ^ 52"
  by (rule binary64_eq) simp_all

lemma price_AAPL: "binary64 (786 * (4579392595642975 / 2 ^ 52)) = 7030083164405036 / 2 ^ 43"
  by (rule binary64_eq) simp_all

lemma change_http_AAPL: "binary64 (7030083164405036 / 2 ^ 43 - 786) = 7446659132771072 / 2 ^ 49"
  by (rule binary64_eq) simp_all

lemma change_realtime_AAPL: "binary64 (786 * (4850749969438627 / 2 ^ 58)) = 7446659132771017 / 2 ^ 49"
  by (rule binary64_eq) simp_all

lemma price_KLAC: "binary64 (993 * (4579392595642975 / 2 ^ 52)) = 8881517280221629 / 2 ^ 43"
  by (rule binary64_eq) simp_all

lemma change_http_KLAC: "binary64 (8881517280221629 / 2 ^ 43 - 993) = 4703901093410720 / 2 ^ 48"
  by (rule binary64_eq) simp_all

lemma change_realtime_KLAC: "binary64 (993 * (4850749969438627 / 2 ^ 58)) = 4703901093410700 / 2 ^ 48"
  by (rule binary64_eq) simp_all

lemma fluctuation_4: "binary64 (- 6816670871723694 / 2 ^ 53 * (5764607523034235 / 2 ^ 58)) = - 8725338715806329 / 2 ^ 59"
  by (rule binary64_eq) simp_all

lemma one_plus_4: "binary64 (1 + - 8725338715806329 / 2 ^ 59) = 8870865837306518 / 2 ^ 53"
  by (rule binary64_eq) simp_all

lemma change_percent_4: "binary64 (- 8725338715806329 / 2 ^ 59 * 100) = - 6816670871723695 / 2 ^ 52"
  by (rule binary64_eq) simp_all

lemma price_FAA: "binary64 (50 * (8870865837306518 / 2 ^ 53)) = 6930363935395717 / 2 ^ 47"
  by (rule binary64_eq) simp_all

lemma change_http_FAA: "binary64 (6930363935395717 / 2 ^ 47 - 50) = - 6816670871723712 / 2 ^ 53"
  by (rule binary64_eq) simp_all

lemma timeSegment_eq:
  assumes "binary64 (real_of_int now / 300000) = q" and "of_int t \<le> q" and "q < of_int t + 1"
  shows "timeSegment now = t"
proof -
  have "timeSegment now = \<lfloor>binary64 (real_of_int now / 300000)\<rfloor>"
    by (simp add: timeSegment_def)
  also have "\<dots> = \<lfloor>q\<rfloor>" by (simp only: assms(1))
  also have "\<dots> = t" using assms(2,3) by (intro floor_unique)
  finally show ?thesis .
qed

lemma timeSegment_300000: "timeSegment 300000 = 1"
  using binary64_1 by (intro timeSegment_eq [where q = 1]) simp_all

lemma timeSegment_1200000: "timeSegment 1200000 = 4"
  using t_1200000 by (intro timeSegment_eq [where q = "4503599627370496 / 2 ^ 50"]) simp_all

lemma timeSegment_2026: "timeSegment 1793664000000 = 5978880" "timeSegment 1793664299999 = 5978880"
  using t_1793664000000
   apply (intro timeSegment_eq [where q = "6419773516677120 / 2 ^ 30"])
     apply simp_all
  using t_1793664299999
  apply (intro timeSegment_eq [where q = "6419774590415365 / 2 ^ 30"])
    apply simp_all
  done

lemma js_rem_bounds: "0 < b \<Longrightarrow> \<bar>js_rem a b\<bar> < b"
  by (simp add: js_rem_def abs_mult abs_sgn_eq)

lemma basePrice_bounds: "50 \<le> basePrice symbol \<and> basePrice symbol \<le> 999"
  using js_rem_bounds [of 950 "symbol_hash symbol"] by (simp add: basePrice_def)

lemma fluctuation_bounds:
  assumes "\<bar>Math_sin (timeSegment now)\<bar> \<le> 1"
  shows "\<bar>fluctuation Math_sin now\<bar> \<le> 200000002 / 10000000000"
proof -
  define c :: real where "c = 5764607523034235 / 2 ^ 58"
  define x where "x = Math_sin (timeSegment now) * c"
  have c: "0 \<le> c" "c \<le> 200000001 / 10000000000" by (simp_all add: c_def)
  have "\<bar>x\<bar> \<le> 1 * c"
    unfolding x_def abs_mult using assms c by (intro mult_mono) simp_all
  then have x: "\<bar>x\<bar> \<le> 200000001 / 10000000000" using c by simp
  from binary64_within [OF this]
  have "\<bar>binary64 x - x\<bar> \<le> 200000001 / 10000000000 / 2 ^ 53" .
  moreover have "(200000001 / 10000000000 / 2 ^ 53 :: real) \<le> 1 / 10000000000" by simp
  ultimately have "\<bar>binary64 x\<bar> \<le> 200000002 / 10000000000" using x by linarith
  then show ?thesis unfolding fluctuation_def binary64_0_02 x_def c_def .
qed

lemma mock_price_bounds:
  assumes "\<bar>Math_sin (timeSegment now)\<bar> \<le> 1"
  shows "4899999 / 100000 \<le> binary64 (of_int (basePrice symbol) * binary64 (1 + fluctuation Math_sin now))
       \<and> binary64 (of_int (basePrice symbol) * binary64 (1 + fluctuation Math_sin now))
           \<le> 10189801 / 10000"
proof -
  define f where "f = fluctuation Math_sin now"
  define one where "one = binary64 (1 + f)"
  define b where "b = real_of_int (basePrice symbol)"
  from fluctuation_bounds [of Math_sin now] assms
  have f: "\<bar>f\<bar> \<le> 200000002 / 10000000000" by (simp add: f_def)
  then have "\<bar>1 + f\<bar> \<le> 2" by linarith
  from binary64_within [OF this] have "\<bar>one - (1 + f)\<bar> \<le> 2 / 2 ^ 53" by (simp add: one_def)
  moreover have "(2 / 2 ^ 53 :: real) \<le> 1 / 10000000000" by simp
  ultimately have one: "9799999997 / 10000000000 \<le> one" "one \<le> 10200000003 / 10000000000"
    using f by linarith+
  from basePrice_bounds [of symbol] have b: "50 \<le> b" "b \<le> 999" by (simp_all add: b_def)
  have "50 * (9799999997 / 10000000000) \<le> b * one"
    using b one by (intro mult_mono) simp_all
  then have lo: "48999999 / 1000000 \<le> b * one" by simp
  have "b * one \<le> 999 * (10200000003 / 10000000000)"
    using b one by (intro mult_mono) simp_all
  then have hi: "b * one \<le> 101898001 / 100000" by simp
  from lo hi have "\<bar>b * one\<bar> \<le> 1019" by linarith
  from binary64_within [OF this] have "\<bar>binary64 (b * one) - b * one\<bar> \<le> 1019 / 2 ^ 53" .
  moreover have "(1019 / 2 ^ 53 :: real) \<le> 1 / 10000000000" by simp
  ultimately have "4899999 / 100000 \<le> binary64 (b * one) \<and> binary64 (b * one) \<le> 10189801 / 10000"
    using lo hi by linarith
  then show ?thesis by (simp add: b_def one_def f_def)
qed

lemma basePrice_AAPL: "basePrice ''AAPL'' = 786"
  by (simp add: basePrice_def symbol_hash_def hash_step_def js_rem_def)

lemma basePrice_KLAC: "basePrice ''KLAC'' = 993"
  by (simp add: basePrice_def symbol_hash_def hash_step_def js_rem_def)

lemma basePrice_FAA: "basePrice ''FAA'' = 50"
  by (simp add: basePrice_def symbol_hash_def hash_step_def js_rem_def)

lemma toFixed2_eq:
  "0 \<le> x \<Longrightarrow> real n \<le> x * 100 + 1 / 2 \<Longrightarrow> x * 100 + 1 / 2 < real n + 1 \<Longrightarrow>
   toFixed2 x = Fixed2 False n"
  "x < 0 \<Longrightarrow> real n \<le> - x * 100 + 1 / 2 \<Longrightarrow> - x * 100 + 1 / 2 < real n + 1 \<Longrightarrow>
   toFixed2 x = Fixed2 True n"
proof -
  have fl: "real n \<le> y \<Longrightarrow> y < real n + 1 \<Longrightarrow> nat \<lfloor>y\<rfloor> = n" for y :: real
    by (simp add: floor_unique nat_eq_iff)
  show "0 \<le> x \<Longrightarrow> real n \<le> x * 100 + 1 / 2 \<Longrightarrow> x * 100 + 1 / 2 < real n + 1 \<Longrightarrow>
        toFixed2 x = Fixed2 False n"
    using fl [of "x * 100 + 1 / 2"] by (simp add: toFixed2_def)
  show "x < 0 \<Longrightarrow> real n \<le> - x * 100 + 1 / 2 \<Longrightarrow> - x * 100 + 1 / 2 < real n + 1 \<Longrightarrow>
        toFixed2 x = Fixed2 True n"
    using fl [of "- x * 100 + 1 / 2"] by (simp add: toFixed2_def)
qed

lemma fluctuation_sin64_1: "fluctuation sin64 300000 = 4850749969438627 / 2 ^ 58"
  by (simp only: fluctuation_def timeSegment_300000 sin64_1 binary64_0_02 fluctuation_1)

lemma fluctuation_sin64_4: "fluctuation sin64 1200000 = - 8725338715806329 / 2 ^ 59"
  by (simp only: fluctuation_def timeSegment_1200000 sin64_4 binary64_0_02 fluctuation_4)

lemma mockApiData_KLAC:
  "mockApiData sin64 ''KLAC'' 300000 = (8881517280221629 / 2 ^ 43, 4703901093410720 / 2 ^ 48, 7579296827247855 / 2 ^ 52)"
  by (simp only: mockApiData_def Let_def fluctuation_sin64_1 basePrice_KLAC of_int_numeral
      one_plus_1 price_KLAC change_http_KLAC change_percent_1)

lemma mockApiData_FAA:
  "mockApiData sin64 ''FAA'' 1200000 = (6930363935395717 / 2 ^ 47, - 6816670871723712 / 2 ^ 53, - 6816670871723695 / 2 ^ 52)"
  by (simp only: mockApiData_def Let_def fluctuation_sin64_4 basePrice_FAA of_int_numeral
      one_plus_4 price_FAA change_http_FAA change_percent_4)

lemma response_KLAC:
  "sendMockApiResponse sin64 300000 ''KLAC''
     = \<lparr>symbol01 = ''KLAC'', price05 = Fixed2 False 100971, change09 = Fixed2 False 1671,
        change_percent10 = Fixed2 False 168\<rparr>"
proof -
  have p: "toFixed2 (8881517280221629 / 2 ^ 43) = Fixed2 False 100971"
    by (intro toFixed2_eq) simp_all
  have c: "toFixed2 (4703901093410720 / 2 ^ 48) = Fixed2 False 1671"
    by (intro toFixed2_eq) simp_all
  have cp: "toFixed2 (7579296827247855 / 2 ^ 52) = Fixed2 False 168"
    by (intro toFixed2_eq) simp_all
  show ?thesis
    by (simp only: sendMockApiResponse_def mockApiData_KLAC prod.case p c cp)
qed

lemma response_FAA:
  "sendMockApiResponse sin64 1200000 ''FAA''
     = \<lparr>symbol01 = ''FAA'', price05 = Fixed2 False 4924, change09 = Fixed2 True 76,
        change_percent10 = Fixed2 True 151\<rparr>"
proof -
  have p: "toFixed2 (6930363935395717 / 2 ^ 47) = Fixed2 False 4924"
    by (intro toFixed2_eq) simp_all
  have c: "toFixed2 (- 6816670871723712 / 2 ^ 53) = Fixed2 True 76"
    by (intro toFixed2_eq) simp_all
  have cp: "toFixed2 (- 6816670871723695 / 2 ^ 52) = Fixed2 True 151"
    by (intro toFixed2_eq) simp_all
  show ?thesis
    by (simp only: sendMockApiResponse_def mockApiData_FAA prod.case p c cp)
qed

lemma sin64_bounded: "\<bar>sin64 t\<bar> \<le> 1"
  unfolding sin64_def by (rule binary64_abs_le_1) simp

text \<open>In a bucket whose sine is at least 0.49 the price of KLAC is above 1000.\<close>

lemma price_KLAC_above_1000:
  assumes "49 / 100 \<le> Math_sin (timeSegment now)" and "Math_sin (timeSegment now) \<le> 1"
  shows "100000 \<le> hundredths (price05 (sendMockApiResponse Math_sin now ''KLAC''))"
proof -
  define c :: real where "c = 5764607523034235 / 2 ^ 58"
  define x where "x = Math_sin (timeSegment now) * c"
  define f where "f = binary64 x"
  define one where "one = binary64 (1 + f)"
  define p where "p = binary64 (993 * one)"
  have c: "2 / 100 \<le> c" "c \<le> 200000001 / 10000000000" by (simp_all add: c_def)
  have "49 / 100 * (2 / 100) \<le> Math_sin (timeSegment now) * c"
    using assms(1) c by (intro mult_mono) simp_all
  then have lo: "98 / 10000 \<le> x" by (simp add: x_def)
  have "Math_sin (timeSegment now) * c \<le> 1 * c"
    using assms(2) c by (intro mult_mono) simp_all
  then have "x \<le> c" by (simp add: x_def)
  with lo c have x: "98 / 10000 \<le> x" "x \<le> 200000001 / 10000000000"
    by linarith+
  then have "\<bar>x\<bar> \<le> 1" by linarith
  from binary64_within [OF this] have "\<bar>f - x\<bar> \<le> 1 / 2 ^ 53" by (simp add: f_def)
  moreover have "(1 / 2 ^ 53 :: real) \<le> 1 / 10000000000" by simp
  ultimately have f: "97 / 10000 \<le> f" "f \<le> 3 / 100" using x by linarith+
  then have "\<bar>1 + f\<bar> \<le> 2" by linarith
  from binary64_within [OF this] have "\<bar>one - (1 + f)\<bar> \<le> 2 / 2 ^ 53" by (simp add: one_def)
  moreover have "(2 / 2 ^ 53 :: real) \<le> 1 / 10000000000" by simp
  ultimately have one: "10096 / 10000 \<le> one" "one \<le> 104 / 100" using f by linarith+
  then have "\<bar>993 * one\<bar> \<le> 1100" by linarith
  from binary64_within [OF this] have "\<bar>p - 993 * one\<bar> \<le> 1100 / 2 ^ 53" by (simp add: p_def)
  moreover have "(1100 / 2 ^ 53 :: real) \<le> 1 / 10000000000" by simp
  ultimately have p: "1002 \<le> p" using one by linarith
  then have "100000 \<le> \<lfloor>p * 100 + 1 / 2\<rfloor>" by (simp add: le_floor_iff)
  then have "100000 \<le> nat \<lfloor>p * 100 + 1 / 2\<rfloor>" by linarith
  moreover have "toFixed2 p = Fixed2 False (nat \<lfloor>p * 100 + 1 / 2\<rfloor>)"
    using p by (simp add: toFixed2_def)
  moreover have "fst (mockApiData Math_sin ''KLAC'' now) = p"
    unfolding mockApiData_def Let_def fst_conv fluctuation_def binary64_0_02 basePrice_KLAC
      of_int_numeral p_def one_def f_def x_def c_def ..
  ultimately show ?thesis
    by (simp add: sendMockApiResponse_def split_beta)
qed

lemma sin64_5978880: "49 / 100 \<le> sin64 5978880"
proof -
  have "\<bar>sin (5978880 :: real)\<bar> \<le> 1" by simp
  from binary64_within [OF this]
  have "\<bar>binary64 (sin (5978880 :: real)) - sin 5978880\<bar> \<le> 1 / 2 ^ 53" .
  moreover have "(1 / 2 ^ 53 :: real) \<le> 1 / 100" by simp
  ultimately show ?thesis
    using sin_5978880 unfolding sin64_def of_int_numeral by linarith
qed

text \<open>
  Claim C1. For every symbol, two calls of the synthetic generator at times of the same
  5-minute bucket give identical price, change and changePercent, whatever the
  library's sine: the values computed, the values \<open>sendMockStockData\<close> pushes, and the
  body \<open>sendMockApiResponse\<close> sends.
\<close>

theorem synthetic_quote_deterministic:
  assumes "timeSegment now1 = timeSegment now2"
  shows "mockStockData Math_sin symbol now1 = mockStockData Math_sin symbol now2
       \<and> map quote_of (fst (sendMockStockData Math_sin reply1 now1 symbol ws1 st1))
           = map quote_of (fst (sendMockStockData Math_sin reply2 now2 symbol ws2 st2))
       \<and> sendMockApiResponse Math_sin now1 symbol = sendMockApiResponse Math_sin now2 symbol"
  using assms
  by (simp add: mockStockData_def sendMockStockData_def sendMockApiResponse_def mockApiData_def
      fluctuation_def Let_def)

theorem synthetic_quote_deterministic_witness:
  "timeSegment 1793664000000 = timeSegment 1793664299999
   \<and> mockStockData sin64 ''AAPL'' 1793664000000 = mockStockData sin64 ''AAPL'' 1793664299999
   \<and> sendMockApiResponse sin64 1793664000000 ''AAPL''
       = sendMockApiResponse sin64 1793664299999 ''AAPL''"
  using synthetic_quote_deterministic [of 1793664000000 1793664299999 sin64 "''AAPL''"
      None 1 "initStore True False" None 1 "initStore True False"]
  by (auto simp: timeSegment_2026)

text \<open>
  Claim C6, as amended. With no provider key configured, and a library sine between -1
  and 1, the HTTP quote response is the mock body, its symbol is the requested symbol,
  the base price is an integer from 50 to 999, and the price sent is a non-negative
  decimal from 49.00 to 1018.98.
\<close>

theorem mock_api_response_range:
  assumes "\<bar>Math_sin (timeSegment now)\<bar> \<le> 1"
  shows "fst (api_stocks Math_sin False response now symbol st)
           = MockBody (sendMockApiResponse Math_sin now symbol)
       \<and> symbol01 (sendMockApiResponse Math_sin now symbol) = symbol
       \<and> 50 \<le> basePrice symbol \<and> basePrice symbol < 1000
       \<and> price05 (sendMockApiResponse Math_sin now symbol)
           = toFixed2 (fst (mockApiData Math_sin symbol now))
       \<and> negative (price05 (sendMockApiResponse Math_sin now symbol)) = False
       \<and> 4900 \<le> hundredths (price05 (sendMockApiResponse Math_sin now symbol))
       \<and> hundredths (price05 (sendMockApiResponse Math_sin now symbol)) \<le> 101898"
proof -
  define p where "p = fst (mockApiData Math_sin symbol now)"
  have "p = binary64 (of_int (basePrice symbol) * binary64 (1 + fluctuation Math_sin now))"
    by (simp add: p_def mockApiData_def Let_def)
  with mock_price_bounds [of Math_sin now symbol] assms
  have p: "4899999 / 100000 \<le> p" "p \<le> 10189801 / 10000" by simp_all
  have fixed: "price05 (sendMockApiResponse Math_sin now symbol) = toFixed2 p"
    by (simp add: sendMockApiResponse_def split_beta p_def)
  have "4900 \<le> \<lfloor>p * 100 + 1 / 2\<rfloor>" and "\<lfloor>p * 100 + 1 / 2\<rfloor> \<le> 101898"
    using p by (simp_all add: le_floor_iff floor_le_iff)
  then have "4900 \<le> nat \<lfloor>p * 100 + 1 / 2\<rfloor> \<and> nat \<lfloor>p * 100 + 1 / 2\<rfloor> \<le> 101898"
    by linarith
  moreover have "toFixed2 p = Fixed2 False (nat \<lfloor>p * 100 + 1 / 2\<rfloor>)"
    using p by (simp add: toFixed2_def)
  ultimately have range: "negative (toFixed2 p) = False \<and> 4900 \<le> hundredths (toFixed2 p)
        \<and> hundredths (toFixed2 p) \<le> 101898"
    by simp
  have "symbol01 (sendMockApiResponse Math_sin now symbol) = symbol"
    by (simp add: sendMockApiResponse_def split_beta)
  then show ?thesis
    using basePrice_bounds [of symbol] range
    by (simp add: fixed api_stocks_def) (simp add: p_def)
qed

theorem mock_api_response_range_witness:
  "\<bar>sin64 (timeSegment 1793664000000)\<bar> \<le> 1
   \<and> fst (api_stocks sin64 False None 1793664000000 ''AAPL'' (initStore True False))
       = MockBody (sendMockApiResponse sin64 1793664000000 ''AAPL'')
   \<and> symbol01 (sendMockApiResponse sin64 1793664000000 ''AAPL'') = ''AAPL''
   \<and> basePrice ''AAPL'' = 786
   \<and> 4900 \<le> hundredths (price05 (sendMockApiResponse sin64 1793664000000 ''AAPL''))
   \<and> hundredths (price05 (sendMockApiResponse sin64 1793664000000 ''AAPL'')) \<le> 101898"
  using mock_api_response_range [of sin64 1793664000000 None "''AAPL''" "initStore True False"]
    sin64_bounded [of "timeSegment 1793664000000"]
  by (auto simp: basePrice_AAPL)

text \<open>
  The price is not always in the interval from 50 to 1000. With the correctly rounded
  sine, five minutes after the epoch the response for KLAC carries the price 1009.71, and
  twenty minutes after it the response for FAA carries 49.24; at 1793664000000
  milliseconds, in November 2026, the price for KLAC is not below 1000 either.
\<close>

theorem mock_api_price_outside_50_1000:
  "fst (api_stocks sin64 False None 300000 ''KLAC'' (initStore True False))
     = MockBody \<lparr>symbol01 = ''KLAC'', price05 = Fixed2 False 100971,
                 change09 = Fixed2 False 1671, change_percent10 = Fixed2 False 168\<rparr>
   \<and> \<not> hundredths (price05 (sendMockApiResponse sin64 300000 ''KLAC'')) < 100000
   \<and> fst (api_stocks sin64 False None 1200000 ''FAA'' (initStore True False))
     = MockBody \<lparr>symbol01 = ''FAA'', price05 = Fixed2 False 4924,
                 change09 = Fixed2 True 76, change_percent10 = Fixed2 True 151\<rparr>
   \<and> \<not> 5000 \<le> hundredths (price05 (sendMockApiResponse sin64 1200000 ''FAA''))
   \<and> \<not> hundredths (price05 (sendMockApiResponse sin64 1793664000000 ''KLAC'')) < 100000"
  using price_KLAC_above_1000 [of sin64 1793664000000] sin64_5978880
    sin64_bounded [of 5978880]
  by (simp add: api_stocks_def response_KLAC response_FAA timeSegment_2026)

text \<open>
  Claim C7. The change of the HTTP mock path, \<open>price - basePrice\<close>, and the change of
  the realtime mock path, \<open>basePrice * fluctuation\<close>, are different numbers for some
  symbol and bucket. If the library's sine of 1 is a double within one unit in the last
  place of \<open>sin 1\<close>, then for AAPL in bucket 1 the HTTP path derives
  13.227923881180232 and the realtime path 13.227923881180134: the first passes through
  the rounding of \<open>1 + fluctuation\<close> and of the price, the second does not.
\<close>

theorem change_formulas_differ:
  assumes "binary64 (Math_sin 1) = Math_sin 1" and "\<bar>Math_sin 1 - sin 1\<bar> \<le> 1 / 2 ^ 53"
  shows "fst (snd (mockApiData Math_sin ''AAPL'' 300000)) = 7446659132771072 / 2 ^ 49
       \<and> fst (snd (mockStockData Math_sin ''AAPL'' 300000)) = 7446659132771017 / 2 ^ 49
       \<and> fst (snd (mockApiData Math_sin ''AAPL'' 300000))
           \<noteq> fst (snd (mockStockData Math_sin ''AAPL'' 300000))"
proof -
  from sine_candidates [OF assms]
  consider (lo) "Math_sin 1 = 7579296827247854 / 2 ^ 53"
    | (hi) "Math_sin 1 = 7579296827247855 / 2 ^ 53"
    by blast
  then have "binary64 (Math_sin 1 * binary64 (2 / 100)) = 4850749969438627 / 2 ^ 58"
  proof cases
    case lo
    then show ?thesis by (simp only: binary64_0_02 fluctuation_1)
  next
    case hi
    then show ?thesis by (simp only: binary64_0_02 fluctuation_1_next)
  qed
  then have f: "fluctuation Math_sin 300000 = 4850749969438627 / 2 ^ 58"
    by (simp add: fluctuation_def timeSegment_300000)
  have api: "fst (snd (mockApiData Math_sin ''AAPL'' 300000))
      = binary64 (binary64 (786 * binary64 (1 + fluctuation Math_sin 300000)) - 786)"
    by (simp add: mockApiData_def Let_def basePrice_AAPL)
  have ws: "fst (snd (mockStockData Math_sin ''AAPL'' 300000))
      = binary64 (786 * fluctuation Math_sin 300000)"
    by (simp add: mockStockData_def Let_def basePrice_AAPL)
  have http: "fst (snd (mockApiData Math_sin ''AAPL'' 300000)) = 7446659132771072 / 2 ^ 49"
    by (simp only: api f one_plus_1 price_AAPL change_http_AAPL)
  have realtime: "fst (snd (mockStockData Math_sin ''AAPL'' 300000)) = 7446659132771017 / 2 ^ 49"
    by (simp only: ws f change_realtime_AAPL)
  show ?thesis
    unfolding http realtime by simp
qed

theorem change_formulas_differ_witness:
  "binary64 (sin64 1) = sin64 1 \<and> \<bar>sin64 1 - sin 1\<bar> \<le> 1 / 2 ^ 53
   \<and> fst (snd (mockApiData sin64 ''AAPL'' 300000))
       \<noteq> fst (snd (mockStockData sin64 ''AAPL'' 300000))"
proof -
  have a: "binary64 (sin64 1) = sin64 1"
    unfolding sin64_1 by (rule binary64_eq) simp_all
  have b: "\<bar>sin64 1 - sin 1\<bar> \<le> 1 / 2 ^ 53"
    unfolding sin64_1 using sin_1_tight by (simp add: abs_le_iff)
  from change_formulas_differ [of sin64] a b show ?thesis by simp
qed


section \<open>Properties of the quote resolution and of the store\<close>

lemma inserted_append: "inserted symbol (xs @ ys) = inserted symbol xs @ inserted symbol ys"
  by (induction symbol xs rule: inserted.induct) auto

lemma samples_storeHistoricalData:
  "mset (samples (snd (storeHistoricalData reply now symbol price changeAmount changePercent st)) s)
     = mset (samples st s) + (if s = symbol then {#(price, changeAmount, changePercent)#} else {#})"
  by (auto simp: storeHistoricalData_def memory_storeHistoricalData_def pool_execute_def
        samples_def inserted_append Map_get_def Map_has_def map_of_Map_set Let_def
        split: option.splits)

lemma storeHistoricalData_result:
  "fst (storeHistoricalData reply now symbol price changeAmount changePercent st) = Success"
  by (auto simp: storeHistoricalData_def pool_execute_def split: option.splits)

lemma sendMockStockData_push:
  "fst (sendMockStockData Math_sin reply now symbol ws st)
     = [WsSend ws \<lparr>upd_symbol = Some (JStr symbol),
                   upd_price = Number (fst (mockStockData Math_sin symbol now)),
                   upd_change = Number (fst (snd (mockStockData Math_sin symbol now))),
                   upd_changePercent = Number (snd (snd (mockStockData Math_sin symbol now))),
                   upd_timestamp = now\<rparr>]"
  by (simp add: sendMockStockData_def split_beta Let_def)

lemma sendMockStockData_samples:
  "mset (samples (snd (sendMockStockData Math_sin reply now symbol ws st)) s)
     = mset (samples st s)
       + (if s = symbol then mset (map quote_of (fst (sendMockStockData Math_sin reply now symbol ws st)))
          else {#})"
  by (simp add: sendMockStockData_def split_beta Let_def samples_storeHistoricalData)

lemma sendStockData_cases:
  "sendStockData parseFloat Math_sin apiKey response reply now symbol ws st
     = sendMockStockData Math_sin reply now symbol ws st
   \<or> (\<exists>s price change changePercent.
        sendStockData parseFloat Math_sin apiKey response reply now symbol ws st
          = ([WsSend ws \<lparr>upd_symbol = s, upd_price = price, upd_change = change,
                          upd_changePercent = changePercent, upd_timestamp = now\<rparr>],
             snd (storeHistoricalData reply now symbol price change changePercent st)))"
  by (auto simp: sendStockData_def Let_def split: option.splits outcome.splits bool.splits)

lemma sendStockData_push:
  "length (fst (sendStockData parseFloat Math_sin apiKey response reply now symbol ws st)) = 1
   \<and> map target (fst (sendStockData parseFloat Math_sin apiKey response reply now symbol ws st)) = [ws]"
  using sendStockData_cases [of parseFloat Math_sin apiKey response reply now symbol ws st]
  by (auto simp: sendMockStockData_push)

lemma sendStockData_samples:
  "mset (samples (snd (sendStockData parseFloat Math_sin apiKey response reply now symbol ws st)) s)
     = mset (samples st s)
       + (if s = symbol
          then mset (map quote_of (fst (sendStockData parseFloat Math_sin apiKey response reply now symbol ws st)))
          else {#})"
  using sendStockData_cases [of parseFloat Math_sin apiKey response reply now symbol ws st]
  by (auto simp: sendMockStockData_samples samples_storeHistoricalData)

text \<open>
  Claim C5, as amended. Every quote resolution on the realtime path, from the provider or
  from the generator, pushes one quote to the connection and adds exactly that quote as
  one sample of the symbol to the History Store, in the durable backend or in memory;
  the samples of other symbols are unchanged. The HTTP path leaves the store as it is.
\<close>

theorem realtime_resolution_appends_one_sample:
  "length (fst (sendStockData parseFloat Math_sin apiKey response reply now symbol ws st)) = 1
   \<and> map target (fst (sendStockData parseFloat Math_sin apiKey response reply now symbol ws st)) = [ws]
   \<and> mset (samples (snd (sendStockData parseFloat Math_sin apiKey response reply now symbol ws st)) symbol)
       = mset (samples st symbol)
         + mset (map quote_of (fst (sendStockData parseFloat Math_sin apiKey response reply now symbol ws st)))
   \<and> (other \<noteq> symbol \<longrightarrow>
        mset (samples (snd (sendStockData parseFloat Math_sin apiKey response reply now symbol ws st)) other)
          = mset (samples st other))
   \<and> snd (api_stocks Math_sin apiKey response now symbol st) = st"
proof -
  have "snd (api_stocks Math_sin apiKey response now symbol st) = st"
    by (simp add: api_stocks_def split: option.splits outcome.splits bool.splits)
  then show ?thesis
    by (simp add: sendStockData_push sendStockData_samples)
qed


theorem realtime_resolution_appends_one_sample_witness:
  "''MSFT'' \<noteq> ''AAPL''
   \<and> map target (fst (sendStockData (\<lambda>v. NaN) sin64 False None None 300000 ''AAPL'' 7
                        (initStore True False))) = [7]
   \<and> samples (initStore True False) ''AAPL'' = []
   \<and> samples (snd (sendStockData (\<lambda>v. NaN) sin64 False None None 300000 ''AAPL'' 7
                      (initStore True False))) ''AAPL''
       = map quote_of (fst (sendStockData (\<lambda>v. NaN) sin64 False None None 300000 ''AAPL'' 7
                              (initStore True False)))
   \<and> samples (snd (sendStockData (\<lambda>v. NaN) sin64 False None None 300000 ''AAPL'' 7
                      (initStore True False))) ''MSFT'' = []"
  using realtime_resolution_appends_one_sample [of "\<lambda>v. NaN" sin64 False None None 300000 "''AAPL''" 7
      "initStore True False" "''MSFT''"]
  by (simp add: sendStockData_def sendMockStockData_def storeHistoricalData_def
      memory_storeHistoricalData_def initStore_def samples_def Map_has_def Map_get_def
      split_beta Let_def)

text \<open>
  A successful resolution on the HTTP path stores no sample: after the mock response for
  KLAC the History Store has no sample of KLAC.
\<close>

theorem http_resolution_appends_nothing:
  "fst (api_stocks sin64 False None 300000 ''KLAC'' (initStore True False))
     = MockBody \<lparr>symbol01 = ''KLAC'', price05 = Fixed2 False 100971,
                 change09 = Fixed2 False 1671, change_percent10 = Fixed2 False 168\<rparr>
   \<and> samples (snd (api_stocks sin64 False None 300000 ''KLAC'' (initStore True False))) ''KLAC'' = []"
  by (simp add: api_stocks_def response_KLAC initStore_def samples_def Map_get_def)

lemma store_step_fallback:
  assumes "usingFallback st"
  shows "usingFallback (snd (store_step c st)) \<and> executed (snd (store_step c st)) = executed st
       \<and> from_memory c (fst (store_step c st))"
  using assms
  by (cases c)
    (auto simp: initDatabase_def getUserWatchlist_def addToWatchlist_def removeFromWatchlist_def
      storeHistoricalData_def getHistoricalData_def memory_getUserWatchlist_def
      memory_addToWatchlist_def memory_removeFromWatchlist_def memory_storeHistoricalData_def
      memory_getHistoricalData_def Let_def split: option.splits)

lemma store_run_fallback:
  "usingFallback st \<Longrightarrow>
   usingFallback (snd (store_run cs st)) \<and> executed (snd (store_run cs st)) = executed st
   \<and> list_all2 from_memory cs (fst (store_run cs st))"
proof (induction cs arbitrary: st)
  case Nil
  then show ?case by simp
next
  case (Cons c cs)
  from store_step_fallback [OF Cons.prems, of c]
  have step: "usingFallback (snd (store_step c st))"
    "executed (snd (store_step c st)) = executed st" "from_memory c (fst (store_step c st))"
    by simp_all
  from Cons.IH [OF step(1)] step show ?case
    by (simp add: split_beta)
qed

lemma store_step_failure:
  assumes "durable_fails c st"
  shows "usingFallback (snd (store_step c st)) \<and> from_memory c (fst (store_step c st))"
  using assms
  by (cases c)
    (auto simp: initDatabase_def getUserWatchlist_def addToWatchlist_def removeFromWatchlist_def
      storeHistoricalData_def getHistoricalData_def memory_getUserWatchlist_def
      memory_addToWatchlist_def memory_removeFromWatchlist_def memory_storeHistoricalData_def
      memory_getHistoricalData_def pool_execute_def Let_def split: option.splits)

text \<open>
  Claim C9. The fallback flag is a one-way switch. A call in which the durable backend
  fails sets the flag and is still answered from memory; after it, every sequence of
  store calls leaves the flag set, sends no statement to the durable backend and is
  answered from memory, whatever the backend would have replied. No call resets a flag
  that is set.
\<close>

theorem fallback_is_one_way:
  assumes "durable_fails c st"
  shows "usingFallback (snd (store_step c st))
       \<and> from_memory c (fst (store_step c st))
       \<and> usingFallback (snd (store_run cs (snd (store_step c st))))
       \<and> executed (snd (store_run cs (snd (store_step c st)))) = executed (snd (store_step c st))
       \<and> list_all2 from_memory cs (fst (store_run cs (snd (store_step c st))))
       \<and> (usingFallback st' \<longrightarrow> usingFallback (snd (store_step c' st')))"
  using store_step_failure [OF assms] store_run_fallback [of "snd (store_step c st)" cs]
    store_step_fallback [of st' c']
  by simp


theorem fallback_is_one_way_witness:
  "durable_fails (AddToWatchlist (None :: unit option) 1 ''AAPL'') (initStore False False)
   \<and> store_run [AddToWatchlist None 1 ''AAPL'', AddToWatchlist (Some ()) 1 ''MSFT'',
                 GetUserWatchlist (Some ()) 1]
        (initStore False False)
       = ([Success, Success, Symbols [''AAPL'', ''MSFT'']],
          \<lparr>usingFallback = True, pool = True, watchlists = [(1, [''AAPL'', ''MSFT''])],
           historicalData = [], executed = []\<rparr>)
   \<and> usingFallback (snd (store_step (AddToWatchlist (Some ()) 1 ''MSFT'')
                           (snd (store_step (AddToWatchlist None 1 ''AAPL'')
                                   (initStore False False)))))"
  using fallback_is_one_way [of "AddToWatchlist (None :: unit option) 1 ''AAPL''"
      "initStore False False" "[AddToWatchlist (Some ()) 1 ''MSFT'', GetUserWatchlist (Some ()) 1]"
      "snd (store_step (AddToWatchlist (None :: unit option) 1 ''AAPL'') (initStore False False))"
      "AddToWatchlist (Some ()) 1 ''MSFT''"]
  by (simp add: initStore_def addToWatchlist_def getUserWatchlist_def pool_execute_def
      memory_addToWatchlist_def memory_getUserWatchlist_def Map_has_def Map_get_def Set_add_def)

lemma calls_for_append: "calls_for s (xs @ ys) = calls_for s xs @ calls_for s ys"
  by (induction s xs rule: calls_for.induct) auto

lemma calls_for_map: "calls_for s (map (CallSendStockData k) cs) = (if k = s then cs else [])"
  by (induction cs) auto

lemma subscribersOf_absent: "s \<notin> fst ` set reg \<Longrightarrow> subscribersOf reg s = []"
  using map_of_eq_None_iff [of reg s] by (simp add: subscribersOf_def Map_get_def)

lemma calls_for_tick:
  "distinct (map fst reg) \<Longrightarrow>
   calls_for s (snd (tick readyState reg))
     = filter (\<lambda>client. readyState client = OPEN) (subscribersOf reg s)"
proof (induction reg)
  case Nil
  then show ?case by (simp add: tick_def subscribersOf_def Map_get_def)
next
  case (Cons e reg)
  obtain k cls where e: "e = (k, cls)" by (cases e)
  from Cons have IH: "calls_for s (snd (tick readyState reg))
      = filter (\<lambda>client. readyState client = OPEN) (subscribersOf reg s)"
    by simp
  have step: "snd (tick readyState ((k', cls) # reg))
      = map (CallSendStockData k') (filter (\<lambda>client. readyState client = OPEN) cls)
        @ snd (tick readyState reg)" for k'
    by (simp add: tick_def)
  show ?case
  proof (cases "k = s")
    case True
    with Cons.prems e have "subscribersOf reg s = []"
      by (intro subscribersOf_absent) auto
    with True e IH show ?thesis
      by (simp add: step calls_for_append calls_for_map subscribersOf_def Map_get_def)
  next
    case False
    with e IH show ?thesis
      by (simp add: step calls_for_append calls_for_map subscribersOf_def Map_get_def)
  qed
qed

lemma fixed_tick_eq: "snd (fixed_tick readyState st) = snd (tick readyState (subscriptions st))"
proof -
  have "(if 0 < length cls
         then map (CallSendStockData k) (filter (\<lambda>client. readyState client = OPEN) cls)
         else [])
        = map (CallSendStockData k) (filter (\<lambda>client. readyState client = OPEN) cls)"
    for k and cls :: "conn list"
    by simp
  then show ?thesis
    by (simp add: fixed_tick_def tick_def split_def)
qed

section \<open>Properties of the periodic update\<close>

text \<open>
  Claim C4, as amended. On a timer tick, for every symbol, \<open>sendStockData\<close> is called
  once for each subscriber connection of the symbol that is open, in subscription order,
  and for no other connection: one quote is requested per open subscriber, not one per
  symbol. Each call pushes to that connection alone. A closed subscriber gets no call, and
  the tick leaves the registry, closed subscribers included, as it is. This holds for
  index.ts and for fixed-index.ts.
\<close>

theorem tick_calls_each_open_subscriber:
  assumes "reg_wf reg" and "reg_wf (subscriptions st)"
  shows "fst (tick readyState reg) = reg
       \<and> calls_for symbol (snd (tick readyState reg))
           = filter (\<lambda>client. readyState client = OPEN) (subscribersOf reg symbol)
       \<and> fst (fixed_tick readyState st) = st
       \<and> calls_for symbol (snd (fixed_tick readyState st))
           = filter (\<lambda>client. readyState client = OPEN) (subscribersOf (subscriptions st) symbol)
       \<and> map target (fst (sendStockData parseFloat Math_sin apiKey response reply now symbol client store))
           = [client]"
  using assms
  by (simp add: calls_for_tick fixed_tick_eq reg_wf_def sendStockData_push)
    (simp add: tick_def fixed_tick_def)

theorem tick_calls_each_open_subscriber_witness:
  "reg_wf [(''AAPL'', [1, 2, 3]), (''MSFT'', [2])]
   \<and> tick closed_2 [(''AAPL'', [1, 2, 3]), (''MSFT'', [2])]
       = ([(''AAPL'', [1, 2, 3]), (''MSFT'', [2])],
          [CallSendStockData ''AAPL'' 1, CallSendStockData ''AAPL'' 3])
   \<and> calls_for ''AAPL'' (snd (tick closed_2 [(''AAPL'', [1, 2, 3]), (''MSFT'', [2])])) = [1, 3]
   \<and> calls_for ''MSFT'' (snd (tick closed_2 [(''AAPL'', [1, 2, 3]), (''MSFT'', [2])])) = []"
  using tick_calls_each_open_subscriber [of "[(''AAPL'', [1, 2, 3]), (''MSFT'', [2])]"
      "\<lparr>clients = [], subscriptions = []\<rparr>" closed_2 "''AAPL''" "\<lambda>v. NaN" sin64 False None None 0 1
      "initStore True False"]
  by (simp add: reg_wf_def tick_def closed_2_def)

text \<open>
  With two open subscribers of one symbol a tick requests two quotes for the symbol, not
  one.
\<close>

theorem tick_requests_quote_per_subscriber:
  "calls_for ''AAPL'' (snd (tick all_OPEN [(''AAPL'', [1, 2])])) = [1, 2]
   \<and> length (calls_for ''AAPL'' (snd (tick all_OPEN [(''AAPL'', [1, 2])]))) \<noteq> 1
   \<and> length (calls_for ''AAPL'' (snd (fixed_tick all_OPEN
         \<lparr>clients = [1, 2], subscriptions = [(''AAPL'', [1, 2])]\<rparr>))) \<noteq> 1"
  by (simp add: tick_def fixed_tick_def all_OPEN_def)

end
